theory Spec2Isabelle
  imports Main "HOL-Library.Sublist"
begin

section \<open>Host services of a virtual device: commands, resources and the bluetooth bridge\<close>

text \<open>
  The development follows \<^verbatim>\<open>host/commands/run_cvd/launch.cc\<close> (the command sources run
  by the launcher) and \<^verbatim>\<open>host/commands/bt_connector/main.cpp\<close> (the bluetooth bridge).
  Every command source is a function from the configuration and the state of the operating
  system to its list of commands and the new state; \<^verbatim>\<open>std::exit\<close> is a result of
  its own.
\<close>

subsection \<open>The operating system as seen by the launcher\<close>

text \<open>
  The launcher creates fifos, directories, pipes and listening sockets. The state keeps the
  file system, the bound ports, the next free descriptor number, the failures the
  environment is going to inject (one flag per system call still to come, \<open>True\<close> for a
  call that is refused whatever the file system says; none left means no refusal) and the
  trace of the calls made so far, each with its success.
\<close>

datatype node = Fifo | Directory | RegularFile

datatype syscall =
    Sys_mkfifo string nat
  | Sys_unlink string
  | Sys_open string
  | Sys_pipe
  | Sys_vsock_server nat
  | Sys_mkdir string nat

type_synonym event = "syscall \<times> bool"

record os =
  fs :: "string \<rightharpoonup> node"
  bound_ports :: "nat set"
  next_fd :: nat
  faults :: "bool list"
  trace :: "event list"

definition refused :: "os \<Rightarrow> bool" where
  "refused s = (case faults s of [] \<Rightarrow> False | b # _ \<Rightarrow> b)"

definition fault_at :: "os \<Rightarrow> nat \<Rightarrow> bool" where
  "fault_at s k = (k < length (faults s) \<and> faults s ! k)"

definition record_call :: "syscall \<Rightarrow> bool \<Rightarrow> os \<Rightarrow> os" where
  "record_call c ok s = s\<lparr>faults := tl (faults s), trace := trace s @ [(c, ok)]\<rparr>"

text \<open>The file modes of the source, \<^verbatim>\<open>0600\<close>, \<^verbatim>\<open>0660\<close> and
  \<^verbatim>\<open>S_IRWXU | S_IRWXG | S_IROTH | S_IXOTH\<close> (\<^verbatim>\<open>0775\<close>), in decimal.\<close>

definition S_0600 :: nat where "S_0600 = 384"
definition S_0660 :: nat where "S_0660 = 432"
definition S_0775 :: nat where "S_0775 = 509"

text \<open>\<^verbatim>\<open>mkfifo(3)\<close>: 0 and a new fifo when the path is free and the call is not
  refused, -1 and no change otherwise (an existing path is \<^verbatim>\<open>EEXIST\<close>).\<close>

definition mkfifo :: "string \<Rightarrow> nat \<Rightarrow> os \<Rightarrow> int \<times> os" where
  "mkfifo path mode s =
     (let ok = (\<not> refused s \<and> fs s path = None);
          s' = record_call (Sys_mkfifo path mode) ok s
      in if ok then (0, s'\<lparr>fs := (fs s)(path \<mapsto> Fifo)\<rparr>) else (-1, s'))"

text \<open>\<^verbatim>\<open>unlink(2)\<close>: removes a fifo or a regular file; fails on a missing path and on
  a directory.\<close>

definition unlink :: "string \<Rightarrow> os \<Rightarrow> int \<times> os" where
  "unlink path s =
     (let ok = (\<not> refused s \<and> (fs s path = Some Fifo \<or> fs s path = Some RegularFile));
          s' = record_call (Sys_unlink path) ok s
      in if ok then (0, s'\<lparr>fs := (fs s)(path := None)\<rparr>) else (-1, s'))"

text \<open>\<^verbatim>\<open>mkdir(2)\<close>: 0 and a new directory when the path is free, -1 otherwise.\<close>

definition mkdir :: "string \<Rightarrow> nat \<Rightarrow> os \<Rightarrow> int \<times> os" where
  "mkdir path mode s =
     (let ok = (\<not> refused s \<and> fs s path = None);
          s' = record_call (Sys_mkdir path mode) ok s
      in if ok then (0, s'\<lparr>fs := (fs s)(path \<mapsto> Directory)\<rparr>) else (-1, s'))"

text \<open>Modelled from the spec: \<^verbatim>\<open>common/libs/utils/files.h\<close> is not among the sources.
  \<open>DirectoryExists\<close> and \<open>FileExists\<close> only look at the file system.\<close>

definition DirectoryExists :: "string \<Rightarrow> os \<Rightarrow> bool" where
  "DirectoryExists path s = (fs s path = Some Directory)"

definition FileExists :: "string \<Rightarrow> os \<Rightarrow> bool" where
  "FileExists path s = (fs s path \<noteq> None)"

subsection \<open>Shared descriptors\<close>

text \<open>Modelled from the spec: \<^verbatim>\<open>common/libs/fs/shared_fd.h\<close> is not among the sources.
  A \<open>SharedFD\<close> is an open descriptor or a closed one; \<open>OpenForReadWrite\<close> opens an
  existing path and fails on an operating-system failure; \<open>BindListener\<close> fails when the
  port is already bound (port 0 asks for an ephemeral port); a pipe is a pair of
  descriptors, the read end first.\<close>

datatype SharedFD = NotOpen | FD nat

definition IsOpen :: "SharedFD \<Rightarrow> bool" where
  "IsOpen fd = (fd \<noteq> NotOpen)"

definition SharedFD_Open :: "string \<Rightarrow> os \<Rightarrow> SharedFD \<times> os" where
  "SharedFD_Open path s =
     (let ok = (\<not> refused s \<and> (fs s path = Some Fifo \<or> fs s path = Some RegularFile));
          s' = record_call (Sys_open path) ok s
      in if ok then (FD (next_fd s), s'\<lparr>next_fd := Suc (next_fd s)\<rparr>) else (NotOpen, s'))"

definition SharedFD_Pipe :: "os \<Rightarrow> bool \<times> SharedFD \<times> SharedFD \<times> os" where
  "SharedFD_Pipe s =
     (let ok = (\<not> refused s);
          s' = record_call Sys_pipe ok s
      in if ok then (True, FD (next_fd s), FD (Suc (next_fd s)), s'\<lparr>next_fd := next_fd s + 2\<rparr>)
         else (False, NotOpen, NotOpen, s'))"

definition SharedFD_VsockServer :: "nat \<Rightarrow> os \<Rightarrow> SharedFD \<times> os" where
  "SharedFD_VsockServer port s =
     (let ok = (\<not> refused s \<and> (port = 0 \<or> port \<notin> bound_ports s));
          s' = record_call (Sys_vsock_server port) ok s
      in if ok then (FD (next_fd s),
                     s'\<lparr>bound_ports := (if port = 0 then bound_ports s
                                         else insert port (bound_ports s)),
                        next_fd := Suc (next_fd s)\<rparr>)
         else (NotOpen, s'))"

subsection \<open>Commands\<close>

text \<open>Modelled from the spec: \<^verbatim>\<open>common/libs/utils/subprocess.h\<close> is not among the
  sources. A command is a binary path and the ordered list of its parameters; a parameter
  is the sequence of the values streamed into it: text, a number, or a reference to a
  descriptor that is resolved when the process is spawned. \<open>AppendToLastParameter\<close>
  extends the last parameter and does nothing when there is none.\<close>

datatype arg = Text string | Number nat | Descriptor SharedFD

type_synonym parameter = "arg list"

record Command =
  executable :: string
  parameters :: "parameter list"

definition NewCommand :: "string \<Rightarrow> Command" where
  "NewCommand path = \<lparr>executable = path, parameters = []\<rparr>"

definition AddParameter :: "parameter \<Rightarrow> Command \<Rightarrow> Command" where
  "AddParameter p c = c\<lparr>parameters := parameters c @ [p]\<rparr>"

definition AppendToLastParameter :: "parameter \<Rightarrow> Command \<Rightarrow> Command" where
  "AppendToLastParameter p c =
     (case rev (parameters c) of
        [] \<Rightarrow> c
      | l # front \<Rightarrow> c\<lparr>parameters := rev front @ [l @ p]\<rparr>)"

definition single_element_emplace :: "'a \<Rightarrow> 'a list" where
  "single_element_emplace element = [] @ [element]"

subsection \<open>Configuration\<close>

text \<open>The configuration is read only. The records hold the getters the command sources
  call; \<^verbatim>\<open>cuttlefish_config.h\<close>, \<^verbatim>\<open>known_paths.h\<close> and the path helpers are not
  among the sources, so the paths they compute are fields too.\<close>

datatype Answer = kUnknown | kYes | kNo

datatype SecureHal = Keymint | Gatekeeper

record CuttlefishConfig =
  enable_host_bluetooth :: bool
  enable_metrics :: Answer
  enable_gnss_grpc_proxy :: bool
  enable_vehicle_hal_grpc_server :: bool
  vehicle_hal_grpc_server_binary :: string
  console :: bool
  secure_hals :: "SecureHal set"

record InstanceSpecific =
  kernel_log_pipe_name :: string
  logcat_pipe_name :: string
  rootcanal_test_port :: nat
  rootcanal_hci_port :: nat
  rootcanal_link_port :: nat
  rootcanal_config_file :: string
  rootcanal_default_commands_file :: string
  config_server_port :: nat
  tombstone_receiver_port :: nat
  gnss_in_pipe_name :: string
  gnss_out_pipe_name :: string
  gnss_grpc_proxy_server_port :: nat
  gnss_file_path :: string
  console_in_pipe_name :: string
  console_out_pipe_name :: string
  vehicle_hal_server_port :: nat
  PerInstancePath :: "string \<Rightarrow> string"
  PerInstanceInternalPath :: "string \<Rightarrow> string"

record known_paths =
  KernelLogMonitorBinary :: string
  RootCanalBinary :: string
  LogcatReceiverBinary :: string
  ConfigServerBinary :: string
  TombstoneReceiverBinary :: string
  MetricsBinary :: string
  GnssGrpcProxyBinary :: string
  ConsoleForwarderBinary :: string
  DefaultHostArtifactsPath :: "string \<Rightarrow> string"
  HostBinaryPath :: "string \<Rightarrow> string"
  AbsolutePath :: "string \<Rightarrow> string"

subsection \<open>Results of a command source\<close>

text \<open>Modelled from the spec: \<^verbatim>\<open>runner_defs.h\<close> is not among the sources. The spec
  gives one exit code to each fatal category; the four categories used by the launcher
  are the enumerators below.\<close>

datatype RunnerExitCodes =
    kPipeIOError
  | kConfigServerError
  | kTombstoneServerError
  | kTombstoneDirCreationError

text \<open>A call either returns a value and leaves a new state, or ends the process with an
  exit code.\<close>

datatype 'a run = Return 'a os | Exit RunnerExitCodes

subsection \<open>The kernel log monitor\<close>

record KernelLogMonitorData =
  pipes :: "SharedFD list"
  commands :: "Command list"

text \<open>The loop of \<open>LaunchKernelLogMonitor\<close> over \<open>i = 0, ..., number_of_event_pipes - 1\<close>:
  a failed pipe ends the process, a created one adds its write end to the last parameter
  (after a comma from the second on) and its read end to the result.\<close>

function event_pipes_loop ::
  "nat \<Rightarrow> nat \<Rightarrow> Command \<Rightarrow> SharedFD list \<Rightarrow> os \<Rightarrow> (Command \<times> SharedFD list) run" where
  "event_pipes_loop number_of_event_pipes i command ret_pipes s =
     (if i < number_of_event_pipes then
        (case SharedFD_Pipe s of
           (created, event_pipe_read_end, event_pipe_write_end, s1) \<Rightarrow>
             if \<not> created then Exit kPipeIOError
             else
               let command1 = (if i > 0 then AppendToLastParameter [Text '',''] command
                               else command);
                   command2 = AppendToLastParameter [Descriptor event_pipe_write_end] command1
               in event_pipes_loop number_of_event_pipes (Suc i) command2
                    (ret_pipes @ [event_pipe_read_end]) s1)
      else Return (command, ret_pipes) s)"
  by pat_completeness auto
termination
  by (relation "measure (\<lambda>(n, i, c, r, s). n - i)") auto

declare event_pipes_loop.simps [simp del]

definition LaunchKernelLogMonitor ::
  "known_paths \<Rightarrow> InstanceSpecific \<Rightarrow> nat \<Rightarrow> os \<Rightarrow> KernelLogMonitorData run" where
  "LaunchKernelLogMonitor kp inst number_of_event_pipes s =
     (let log_name = kernel_log_pipe_name inst in
      case mkfifo log_name S_0600 s of
        (rc, s1) \<Rightarrow>
          if rc \<noteq> 0 then Return \<lparr>pipes = [], commands = []\<rparr> s1
          else
            (case SharedFD_Open log_name s1 of
               (pipe, s2) \<Rightarrow>
                 let command = NewCommand (KernelLogMonitorBinary kp);
                     command = AddParameter [Text ''-log_pipe_fd='', Descriptor pipe] command
                 in if number_of_event_pipes > 0 then
                      (case event_pipes_loop number_of_event_pipes 0
                              (AddParameter [Text ''-subscriber_fds=''] command) [] s2 of
                         Exit code \<Rightarrow> Exit code
                       | Return (command', ret_pipes) s3 \<Rightarrow>
                           Return \<lparr>pipes = ret_pipes, commands = [] @ [command']\<rparr> s3)
                    else Return \<lparr>pipes = [], commands = [] @ [command]\<rparr> s2))"

subsection \<open>The command sources\<close>

definition RootCanal_Commands ::
  "known_paths \<Rightarrow> CuttlefishConfig \<Rightarrow> InstanceSpecific \<Rightarrow> os \<Rightarrow> Command list run" where
  "RootCanal_Commands kp config inst s =
     (if \<not> enable_host_bluetooth config then Return [] s
      else
        let command = NewCommand (RootCanalBinary kp);
            command = AddParameter [Number (rootcanal_test_port inst)] command;
            command = AddParameter [Number (rootcanal_hci_port inst)] command;
            command = AddParameter [Number (rootcanal_link_port inst)] command;
            command = AddParameter [Text ''--controller_properties_file='',
                                    Text (rootcanal_config_file inst)] command;
            command = AddParameter [Text ''--default_commands_file='',
                                    Text (rootcanal_default_commands_file inst)] command
        in Return (single_element_emplace command) s)"

definition LogcatReceiver_Commands ::
  "known_paths \<Rightarrow> InstanceSpecific \<Rightarrow> os \<Rightarrow> Command list run" where
  "LogcatReceiver_Commands kp inst s =
     (let log_name = logcat_pipe_name inst in
      case mkfifo log_name S_0600 s of
        (rc, s1) \<Rightarrow>
          if rc \<noteq> 0 then Return [] s1
          else
            (case SharedFD_Open log_name s1 of
               (pipe, s2) \<Rightarrow>
                 let command = NewCommand (LogcatReceiverBinary kp);
                     command = AddParameter [Text ''-log_pipe_fd='', Descriptor pipe] command
                 in Return (single_element_emplace command) s2))"

definition ConfigServer_Commands ::
  "known_paths \<Rightarrow> InstanceSpecific \<Rightarrow> os \<Rightarrow> Command list run" where
  "ConfigServer_Commands kp inst s =
     (let port = config_server_port inst in
      case SharedFD_VsockServer port s of
        (socket, s1) \<Rightarrow>
          if \<not> IsOpen socket then Exit kConfigServerError
          else
            let cmd = NewCommand (ConfigServerBinary kp);
                cmd = AddParameter [Text ''-server_fd='', Descriptor socket] cmd
            in Return (single_element_emplace cmd) s1)"

text \<open>The second half of \<open>TombstoneReceiver::Commands\<close>, reached once the directory is
  there.\<close>

definition tombstone_server ::
  "known_paths \<Rightarrow> InstanceSpecific \<Rightarrow> string \<Rightarrow> os \<Rightarrow> Command list run" where
  "tombstone_server kp inst tombstoneDir s =
     (let port = tombstone_receiver_port inst in
      case SharedFD_VsockServer port s of
        (socket, s1) \<Rightarrow>
          if \<not> IsOpen socket then Exit kTombstoneServerError
          else
            let cmd = NewCommand (TombstoneReceiverBinary kp);
                cmd = AddParameter [Text ''-server_fd='', Descriptor socket] cmd;
                cmd = AddParameter [Text ''-tombstone_dir='', Text tombstoneDir] cmd
            in Return (single_element_emplace cmd) s1)"

definition TombstoneReceiver_Commands ::
  "known_paths \<Rightarrow> InstanceSpecific \<Rightarrow> os \<Rightarrow> Command list run" where
  "TombstoneReceiver_Commands kp inst s =
     (let tombstoneDir = PerInstancePath inst ''tombstones'' in
      if \<not> DirectoryExists tombstoneDir s then
        (case mkdir tombstoneDir S_0775 s of
           (rc, s1) \<Rightarrow>
             if rc < 0 then Exit kTombstoneDirCreationError
             else tombstone_server kp inst tombstoneDir s1)
      else tombstone_server kp inst tombstoneDir s)"

definition MetricsService_Commands ::
  "known_paths \<Rightarrow> CuttlefishConfig \<Rightarrow> os \<Rightarrow> Command list run" where
  "MetricsService_Commands kp config s =
     (if enable_metrics config \<noteq> kYes then Return [] s
      else Return (single_element_emplace (NewCommand (MetricsBinary kp))) s)"

definition GnssGrpcProxyServer_Commands ::
  "known_paths \<Rightarrow> CuttlefishConfig \<Rightarrow> InstanceSpecific \<Rightarrow> os \<Rightarrow> Command list run" where
  "GnssGrpcProxyServer_Commands kp config inst s =
     (if \<not> enable_gnss_grpc_proxy config \<or> \<not> FileExists (GnssGrpcProxyBinary kp) s
      then Return [] s
      else
        let gnss_grpc_proxy_cmd = NewCommand (GnssGrpcProxyBinary kp);
            gnss_in_pipe_name = gnss_in_pipe_name inst in
        case mkfifo gnss_in_pipe_name S_0600 s of
          (rc_in, s1) \<Rightarrow>
            if rc_in \<noteq> 0 then Return [] s1
            else
              let gnss_out_pipe_name = gnss_out_pipe_name inst in
              (case mkfifo gnss_out_pipe_name S_0660 s1 of
                 (rc_out, s2) \<Rightarrow>
                   if rc_out \<noteq> 0 then Return [] s2
                   else
                     (case SharedFD_Open gnss_in_pipe_name s2 of
                        (gnss_grpc_proxy_in_wr, s3) \<Rightarrow>
                          if \<not> IsOpen gnss_grpc_proxy_in_wr then Return [] s3
                          else
                            (case SharedFD_Open gnss_out_pipe_name s3 of
                               (gnss_grpc_proxy_out_rd, s4) \<Rightarrow>
                                 if \<not> IsOpen gnss_grpc_proxy_out_rd then Return [] s4
                                 else
                                   let gnss_grpc_proxy_server_port =
                                         gnss_grpc_proxy_server_port inst;
                                       cmd1 = AddParameter
                                         [Text ''--gnss_in_fd='',
                                          Descriptor gnss_grpc_proxy_in_wr]
                                         gnss_grpc_proxy_cmd;
                                       cmd2 = AddParameter
                                         [Text ''--gnss_out_fd='',
                                          Descriptor gnss_grpc_proxy_out_rd] cmd1;
                                       cmd3 = AddParameter
                                         [Text ''--gnss_grpc_port='',
                                          Number gnss_grpc_proxy_server_port] cmd2;
                                       cmd4 = (if gnss_file_path inst \<noteq> []
                                               then AddParameter
                                                 [Text ''--gnss_file_path='',
                                                  Text (gnss_file_path inst)] cmd3
                                               else cmd3)
                                   in Return (single_element_emplace cmd4) s4))))"

text \<open>The loop over \<open>fifo_paths\<close> that \<open>BluetoothConnector::Commands\<close> and
  \<open>SecureEnvironment::Commands\<close> both contain, with the mode of the fifo as a parameter
  (\<^verbatim>\<open>0660\<close> in the first, \<^verbatim>\<open>0600\<close> in the second). \<open>None\<close> is the
  \<^verbatim>\<open>return {}\<close> from inside the loop.\<close>

fun create_fifos ::
  "nat \<Rightarrow> string list \<Rightarrow> SharedFD list \<Rightarrow> os \<Rightarrow> SharedFD list option \<times> os" where
  "create_fifos mode [] fifos s = (Some fifos, s)"
| "create_fifos mode (path # rest) fifos s =
     (case unlink path s of
        (_, s1) \<Rightarrow>
          (case mkfifo path mode s1 of
             (rc, s2) \<Rightarrow>
               if rc < 0 then (None, s2)
               else
                 (case SharedFD_Open path s2 of
                    (fd, s3) \<Rightarrow>
                      if \<not> IsOpen fd then (None, s3)
                      else create_fifos mode rest (fifos @ [fd]) s3)))"

definition BluetoothConnector_Commands ::
  "known_paths \<Rightarrow> CuttlefishConfig \<Rightarrow> InstanceSpecific \<Rightarrow> os \<Rightarrow> Command list run" where
  "BluetoothConnector_Commands kp config inst s =
     (if \<not> enable_host_bluetooth config then Return [] s
      else
        let fifo_paths = [PerInstanceInternalPath inst ''bt_fifo_vm.in'',
                          PerInstanceInternalPath inst ''bt_fifo_vm.out''] in
        case create_fifos S_0660 fifo_paths [] s of
          (None, s1) \<Rightarrow> Return [] s1
        | (Some fifos, s1) \<Rightarrow>
            let command = NewCommand (DefaultHostArtifactsPath kp ''bin/bt_connector'');
                command = AddParameter [Text ''-bt_out='', Descriptor (fifos ! 0)] command;
                command = AddParameter [Text ''-bt_in='', Descriptor (fifos ! 1)] command;
                command = AddParameter [Text ''-hci_port='',
                                        Number (rootcanal_hci_port inst)] command;
                command = AddParameter [Text ''-link_port='',
                                        Number (rootcanal_link_port inst)] command;
                command = AddParameter [Text ''-test_port='',
                                        Number (rootcanal_test_port inst)] command
            in Return (single_element_emplace command) s1)"

definition SecureEnvironment_Commands ::
  "known_paths \<Rightarrow> CuttlefishConfig \<Rightarrow> InstanceSpecific \<Rightarrow> os \<Rightarrow> Command list run" where
  "SecureEnvironment_Commands kp config inst s =
     (let fifo_paths = [PerInstanceInternalPath inst ''keymaster_fifo_vm.in'',
                        PerInstanceInternalPath inst ''keymaster_fifo_vm.out'',
                        PerInstanceInternalPath inst ''gatekeeper_fifo_vm.in'',
                        PerInstanceInternalPath inst ''gatekeeper_fifo_vm.out''] in
      case create_fifos S_0600 fifo_paths [] s of
        (None, s1) \<Rightarrow> Return [] s1
      | (Some fifos, s1) \<Rightarrow>
          let command = NewCommand (HostBinaryPath kp ''secure_env'');
              command = AddParameter [Text ''-keymaster_fd_out='',
                                      Descriptor (fifos ! 0)] command;
              command = AddParameter [Text ''-keymaster_fd_in='',
                                      Descriptor (fifos ! 1)] command;
              command = AddParameter [Text ''-gatekeeper_fd_out='',
                                      Descriptor (fifos ! 2)] command;
              command = AddParameter [Text ''-gatekeeper_fd_in='',
                                      Descriptor (fifos ! 3)] command;
              secure_keymint = (Keymint \<in> secure_hals config);
              command = AddParameter [Text ''-keymint_impl='',
                                      Text (if secure_keymint then ''tpm'' else ''software'')]
                          command;
              secure_gatekeeper = (Gatekeeper \<in> secure_hals config);
              gatekeeper_impl = (if secure_gatekeeper then ''tpm'' else ''software'');
              command = AddParameter [Text ''-gatekeeper_impl='', Text gatekeeper_impl] command
          in Return (single_element_emplace command) s1)"

definition VehicleHalServer_Commands ::
  "known_paths \<Rightarrow> CuttlefishConfig \<Rightarrow> InstanceSpecific \<Rightarrow> os \<Rightarrow> Command list run" where
  "VehicleHalServer_Commands kp config inst s =
     (if \<not> enable_vehicle_hal_grpc_server config
         \<or> \<not> FileExists (vehicle_hal_grpc_server_binary config) s
      then Return [] s
      else
        let grpc_server = NewCommand (vehicle_hal_grpc_server_binary config);
            vhal_server_cid = (2::nat);
            vhal_server_port = vehicle_hal_server_port inst;
            vhal_server_power_state_file =
              AbsolutePath kp (PerInstancePath inst ''power_state'');
            vhal_server_power_state_socket =
              AbsolutePath kp (PerInstancePath inst ''power_state_socket'');
            grpc_server = AddParameter [Text ''--server_cid='', Number vhal_server_cid]
                            grpc_server;
            grpc_server = AddParameter [Text ''--server_port='', Number vhal_server_port]
                            grpc_server;
            grpc_server = AddParameter [Text ''--power_state_file='',
                                        Text vhal_server_power_state_file] grpc_server;
            grpc_server = AddParameter [Text ''--power_state_socket='',
                                        Text vhal_server_power_state_socket] grpc_server
        in Return (single_element_emplace grpc_server) s)"

definition ConsoleForwarder_Commands ::
  "known_paths \<Rightarrow> CuttlefishConfig \<Rightarrow> InstanceSpecific \<Rightarrow> os \<Rightarrow> Command list run" where
  "ConsoleForwarder_Commands kp config inst s =
     (if \<not> console config then Return [] s
      else
        let console_forwarder_cmd = NewCommand (ConsoleForwarderBinary kp);
            console_in_pipe_name = console_in_pipe_name inst in
        case mkfifo console_in_pipe_name S_0600 s of
          (rc_in, s1) \<Rightarrow>
            if rc_in \<noteq> 0 then Return [] s1
            else
              let console_out_pipe_name = console_out_pipe_name inst in
              (case mkfifo console_out_pipe_name S_0660 s1 of
                 (rc_out, s2) \<Rightarrow>
                   if rc_out \<noteq> 0 then Return [] s2
                   else
                     (case SharedFD_Open console_in_pipe_name s2 of
                        (console_forwarder_in_wr, s3) \<Rightarrow>
                          if \<not> IsOpen console_forwarder_in_wr then Return [] s3
                          else
                            (case SharedFD_Open console_out_pipe_name s3 of
                               (console_forwarder_out_rd, s4) \<Rightarrow>
                                 if \<not> IsOpen console_forwarder_out_rd then Return [] s4
                                 else
                                   let cmd1 = AddParameter
                                         [Text ''--console_in_fd='',
                                          Descriptor console_forwarder_in_wr]
                                         console_forwarder_cmd;
                                       cmd2 = AddParameter
                                         [Text ''--console_out_fd='',
                                          Descriptor console_forwarder_out_rd] cmd1
                                   in Return (single_element_emplace cmd2) s4))))"

subsection \<open>The registry\<close>

text \<open>\<open>launchComponent\<close> registers the command sources in this order.\<close>

datatype CommandSource =
    ConfigServer
  | ConsoleForwarder
  | BluetoothConnector
  | GnssGrpcProxyServer
  | LogcatReceiver
  | MetricsService
  | RootCanal
  | SecureEnvironment
  | TombstoneReceiver
  | VehicleHalServer

definition launchComponent :: "CommandSource list" where
  "launchComponent =
     [ConfigServer, ConsoleForwarder, BluetoothConnector, GnssGrpcProxyServer,
      LogcatReceiver, MetricsService, RootCanal, SecureEnvironment, TombstoneReceiver,
      VehicleHalServer]"

text \<open>The virtual call \<open>CommandSource::Commands\<close>.\<close>

fun Commands ::
  "known_paths \<Rightarrow> CuttlefishConfig \<Rightarrow> InstanceSpecific \<Rightarrow> CommandSource \<Rightarrow> os
     \<Rightarrow> Command list run" where
  "Commands kp config inst ConfigServer s = ConfigServer_Commands kp inst s"
| "Commands kp config inst ConsoleForwarder s = ConsoleForwarder_Commands kp config inst s"
| "Commands kp config inst BluetoothConnector s = BluetoothConnector_Commands kp config inst s"
| "Commands kp config inst GnssGrpcProxyServer s =
     GnssGrpcProxyServer_Commands kp config inst s"
| "Commands kp config inst LogcatReceiver s = LogcatReceiver_Commands kp inst s"
| "Commands kp config inst MetricsService s = MetricsService_Commands kp config s"
| "Commands kp config inst RootCanal s = RootCanal_Commands kp config inst s"
| "Commands kp config inst SecureEnvironment s = SecureEnvironment_Commands kp config inst s"
| "Commands kp config inst TombstoneReceiver s = TombstoneReceiver_Commands kp inst s"
| "Commands kp config inst VehicleHalServer s = VehicleHalServer_Commands kp config inst s"

text \<open>Modelled from the spec: the caller of \<open>launchComponent\<close> (the launcher's main
  function) is not among the sources. \<open>Compose\<close> invokes every registered Service
  Definition in the order of registration and appends what each returns to the commands
  collected so far; a command source that ends the process ends the composition.\<close>

fun compose_loop ::
  "known_paths \<Rightarrow> CuttlefishConfig \<Rightarrow> InstanceSpecific \<Rightarrow> CommandSource list
     \<Rightarrow> Command list \<Rightarrow> os \<Rightarrow> Command list run" where
  "compose_loop kp config inst [] collected s = Return collected s"
| "compose_loop kp config inst (source # sources) collected s =
     (case Commands kp config inst source s of
        Exit code \<Rightarrow> Exit code
      | Return cmds s1 \<Rightarrow> compose_loop kp config inst sources (collected @ cmds) s1)"

definition Compose ::
  "known_paths \<Rightarrow> CuttlefishConfig \<Rightarrow> InstanceSpecific \<Rightarrow> os \<Rightarrow> Command list run" where
  "Compose kp config inst s = compose_loop kp config inst launchComponent [] s"

subsection \<open>The bluetooth bridge: the guest-to-host direction\<close>

text \<open>
  The state of \<^verbatim>\<open>bt_connector\<close> seen by the thread \<open>guest_to_host\<close>: the chunks the
  coming reads of \<open>bt_in\<close> return (each at most the 1024 bytes of the buffer; a read with
  nothing to return blocks, and reads do not fail: the launcher keeps the fifo open), the
  socket to the peer, and the environment: the writes and the connections it is going to
  refuse. \<open>delivered\<close> is what the peer has received, with the socket it came through;
  \<open>connections\<close> lists the calls of \<open>openSocket\<close> by port. The mutex of \<open>openSocket\<close> has no
  effect on a single thread and is left out.
\<close>

record bridge =
  bt_in :: "string list"
  sock :: SharedFD
  next_sock :: nat
  write_faults :: "bool list"
  connect_faults :: "bool list"
  delivered :: "(SharedFD \<times> string) list"
  connections :: "nat list"

definition openSocket :: "nat \<Rightarrow> bridge \<Rightarrow> bridge" where
  "openSocket port b =
     (let ok = (case connect_faults b of [] \<Rightarrow> True | r # _ \<Rightarrow> \<not> r) in
      b\<lparr>sock := (if ok then FD (next_sock b) else NotOpen),
        next_sock := (if ok then Suc (next_sock b) else next_sock b),
        connect_faults := tl (connect_faults b),
        connections := connections b @ [port]\<rparr>)"

text \<open>Modelled from the spec: \<^verbatim>\<open>common/libs/fs/shared_buf.h\<close> is not among the sources.
  \<open>WriteAll\<close> writes the chunk verbatim to the peer or fails with -1; it fails on a socket
  that is not open. (\<open>SocketLocalClient\<close>, in \<open>openSocket\<close> above, gives a new open socket
  or, when the connection is refused, one that is not open.)\<close>

definition WriteAll :: "string \<Rightarrow> bridge \<Rightarrow> int \<times> bridge" where
  "WriteAll buf b =
     (let ok = (IsOpen (sock b) \<and> (case write_faults b of [] \<Rightarrow> True | r # _ \<Rightarrow> \<not> r));
          b' = b\<lparr>write_faults := tl (write_faults b)\<rparr>
      in if ok then (int (length buf), b'\<lparr>delivered := delivered b @ [(sock b, buf)]\<rparr>)
         else (-1, b'))"

text \<open>One turn of the loop of \<open>guest_to_host\<close>; \<open>None\<close> when the read blocks.\<close>

definition guest_to_host_iteration :: "nat \<Rightarrow> bridge \<Rightarrow> bridge option" where
  "guest_to_host_iteration hci_port b =
     (case bt_in b of
        [] \<Rightarrow> None
      | buf # rest \<Rightarrow>
          (case WriteAll buf (b\<lparr>bt_in := rest\<rparr>) of
             (rc, b1) \<Rightarrow> Some (if rc = -1 then openSocket hci_port b1 else b1)))"

text \<open>The loop never returns; \<open>guest_to_host n\<close> is the state after \<open>n\<close> turns, or the
  state in which the thread is blocked in its read.\<close>

fun guest_to_host :: "nat \<Rightarrow> nat \<Rightarrow> bridge \<Rightarrow> bridge" where
  "guest_to_host hci_port 0 b = b"
| "guest_to_host hci_port (Suc n) b =
     (case guest_to_host_iteration hci_port b of
        None \<Rightarrow> b
      | Some b' \<Rightarrow> guest_to_host hci_port n b')"

subsection \<open>Notions used in the statements\<close>

text \<open>A list of values joined by commas, as one parameter holds it.\<close>

fun comma_joined :: "arg list \<Rightarrow> arg list" where
  "comma_joined [] = []"
| "comma_joined [x] = [x]"
| "comma_joined (x # y # zs) = x # Text '','' # comma_joined (y # zs)"

text \<open>The calls a loop over fifo paths makes when nothing fails, and the failures that
  count as a failure to create or open a fifo.\<close>

definition fifo_schedule :: "nat \<Rightarrow> string list \<Rightarrow> syscall list" where
  "fifo_schedule mode paths =
     concat (map (\<lambda>p. [Sys_unlink p, Sys_mkfifo p mode, Sys_open p]) paths)"

fun creation_failed :: "event \<Rightarrow> bool" where
  "creation_failed (Sys_mkfifo p m, ok) = (\<not> ok)"
| "creation_failed (Sys_open p, ok) = (\<not> ok)"
| "creation_failed (c, ok) = False"

text \<open>In a trace that follows the schedule, the fifo with index \<open>j\<close> (from 0) is created
  by the call with index \<open>3 * j + 1\<close> and opened by the call with index \<open>3 * j + 2\<close>; the
  fifo failed when one of the two was made and failed.\<close>

definition pipe_failed :: "event list \<Rightarrow> nat \<Rightarrow> bool" where
  "pipe_failed evs j =
     ((3 * j + 1 < length evs \<and> \<not> snd (evs ! (3 * j + 1)))
      \<or> (3 * j + 2 < length evs \<and> \<not> snd (evs ! (3 * j + 2))))"

text \<open>A command up to the numbers of its descriptors, and a result of the composition up
  to them.\<close>

fun arg_shape :: "arg \<Rightarrow> arg" where
  "arg_shape (Descriptor (FD n)) = Descriptor (FD 0)"
| "arg_shape a = a"

definition command_shape :: "Command \<Rightarrow> Command" where
  "command_shape c = c\<lparr>parameters := map (map arg_shape) (parameters c)\<rparr>"

fun run_shape :: "Command list run \<Rightarrow> RunnerExitCodes + Command list" where
  "run_shape (Return cmds s) = Inr (map command_shape cmds)"
| "run_shape (Exit code) = Inl code"

text \<open>Two states of the operating system that differ at most in the numbering of
  descriptors and in their past.\<close>

definition os_agree :: "os \<Rightarrow> os \<Rightarrow> bool" where
  "os_agree s t = (fs s = fs t \<and> bound_ports s = bound_ports t \<and> faults s = faults t)"

text \<open>Two results of a command source that agree up to descriptor numbers and leave
  states that agree.\<close>

fun run_agree :: "Command list run \<Rightarrow> Command list run \<Rightarrow> bool" where
  "run_agree (Return c1 s1) (Return c2 s2) =
     (map command_shape c1 = map command_shape c2 \<and> os_agree s1 s2)"
| "run_agree (Exit a) (Exit b) = (a = b)"
| "run_agree (Return c1 s1) (Exit b) = False"
| "run_agree (Exit a) (Return c2 s2) = False"

text \<open>Every command source run once, in order, each from the state its predecessor left;
  the result keeps the outputs apart.\<close>

fun invoke_all ::
  "known_paths \<Rightarrow> CuttlefishConfig \<Rightarrow> InstanceSpecific \<Rightarrow> CommandSource list \<Rightarrow> os
     \<Rightarrow> Command list list run" where
  "invoke_all kp config inst [] s = Return [] s"
| "invoke_all kp config inst (source # sources) s =
     (case Commands kp config inst source s of
        Exit code \<Rightarrow> Exit code
      | Return cmds s1 \<Rightarrow>
          (case invoke_all kp config inst sources s1 of
             Exit code \<Rightarrow> Exit code
           | Return outs s2 \<Rightarrow> Return (cmds # outs) s2))"

text \<open>What a call returned, without the state.\<close>

fun returned :: "'a run \<Rightarrow> 'a option" where
  "returned (Return x s) = Some x"
| "returned (Exit code) = None"

fun state_after :: "'a run \<Rightarrow> os option" where
  "state_after (Return x s) = Some s"
| "state_after (Exit code) = None"

subsection \<open>A concrete instance\<close>

definition kp0 :: known_paths where
  "kp0 = \<lparr>KernelLogMonitorBinary = ''bin/klm'', RootCanalBinary = ''bin/root-canal'',
          LogcatReceiverBinary = ''bin/logcat'', ConfigServerBinary = ''bin/config'',
          TombstoneReceiverBinary = ''bin/tomb'', MetricsBinary = ''bin/metrics'',
          GnssGrpcProxyBinary = ''bin/gnss'', ConsoleForwarderBinary = ''bin/console'',
          DefaultHostArtifactsPath = (\<lambda>p. ''out/'' @ p),
          HostBinaryPath = (\<lambda>p. ''out/bin/'' @ p),
          AbsolutePath = (\<lambda>p. ''/'' @ p)\<rparr>"

definition inst0 :: InstanceSpecific where
  "inst0 = \<lparr>kernel_log_pipe_name = ''i/kernel-log-pipe'',
            logcat_pipe_name = ''i/logcat-pipe'',
            rootcanal_test_port = 7500, rootcanal_hci_port = 7300,
            rootcanal_link_port = 7400,
            rootcanal_config_file = ''etc/props'',
            rootcanal_default_commands_file = ''etc/cmds'',
            config_server_port = 6800, tombstone_receiver_port = 6600,
            gnss_in_pipe_name = ''i/gnss.in'', gnss_out_pipe_name = ''i/gnss.out'',
            gnss_grpc_proxy_server_port = 7200, gnss_file_path = [],
            console_in_pipe_name = ''i/console.in'',
            console_out_pipe_name = ''i/console.out'',
            vehicle_hal_server_port = 9210,
            PerInstancePath = (\<lambda>n. ''i/'' @ n),
            PerInstanceInternalPath = (\<lambda>n. ''i/internal/'' @ n)\<rparr>"

definition config_off :: CuttlefishConfig where
  "config_off = \<lparr>enable_host_bluetooth = False, enable_metrics = kNo,
                 enable_gnss_grpc_proxy = False, enable_vehicle_hal_grpc_server = False,
                 vehicle_hal_grpc_server_binary = ''bin/vhal'', console = False,
                 secure_hals = {}\<rparr>"

definition config_on :: CuttlefishConfig where
  "config_on = \<lparr>enable_host_bluetooth = True, enable_metrics = kYes,
                enable_gnss_grpc_proxy = True, enable_vehicle_hal_grpc_server = True,
                vehicle_hal_grpc_server_binary = ''bin/vhal'', console = True,
                secure_hals = {Keymint}\<rparr>"

text \<open>A fresh instance directory with the two optional binaries installed, the same with
  no file at all, and the same with the logcat fifo of an earlier run still in it.\<close>

definition os0 :: os where
  "os0 = \<lparr>fs = [''bin/gnss'' \<mapsto> RegularFile, ''bin/vhal'' \<mapsto> RegularFile],
          bound_ports = {}, next_fd = 3, faults = [], trace = []\<rparr>"

definition os_empty :: os where
  "os_empty = os0\<lparr>fs := Map.empty\<rparr>"

definition os_stale :: os where
  "os_stale = os0\<lparr>fs := (fs os0)(''i/logcat-pipe'' \<mapsto> Fifo)\<rparr>"

text \<open>The same directory when the environment refuses the eighth call to come.\<close>

definition os_fault7 :: os where
  "os_fault7 =
     os0\<lparr>faults := [False, False, False, False, False, False, False, True]\<rparr>"

text \<open>The same when it refuses the first, the second or the fourth call to come.\<close>

definition os_fault0 :: os where
  "os_fault0 = os0\<lparr>faults := [True]\<rparr>"

definition os_fault1 :: os where
  "os_fault1 = os0\<lparr>faults := [False, True]\<rparr>"

definition os_fault3 :: os where
  "os_fault3 = os0\<lparr>faults := [False, False, False, True]\<rparr>"

text \<open>The fresh directory seen by a process with other descriptors open and another past.\<close>

definition os_later :: os where
  "os_later = os0\<lparr>next_fd := 40, trace := [(Sys_pipe, True)]\<rparr>"

text \<open>A bridge with three chunks to read whose first write is going to fail.\<close>

definition bridge0 :: bridge where
  "bridge0 = \<lparr>bt_in = [''ab'', ''cd'', ''ef''], sock = FD 5, next_sock = 6,
              write_faults = [True, False, False], connect_faults = [],
              delivered = [], connections = [7300]\<rparr>"

section \<open>Properties\<close>

subsection \<open>Disabled command sources\<close>

text \<open>
  C1, as amended. A command source guarded by a feature flag (bluetooth controller
  \<open>RootCanal\<close>, bluetooth bridge \<open>BluetoothConnector\<close>, metrics, GNSS proxy, vehicle-HAL
  server, console forwarder) whose flag is off returns no command and leaves the operating
  system exactly as it found it: no call is made, so no pipe, socket or directory is
  created. The same holds when the binary is absent for the two sources that look for it,
  the GNSS proxy and the vehicle-HAL server.
\<close>

theorem disabled_source_creates_nothing:
  "(\<not> enable_host_bluetooth config \<longrightarrow>
      RootCanal_Commands kp config inst s = Return [] s
      \<and> BluetoothConnector_Commands kp config inst s = Return [] s)
   \<and> (enable_metrics config \<noteq> kYes \<longrightarrow> MetricsService_Commands kp config s = Return [] s)
   \<and> (\<not> enable_gnss_grpc_proxy config \<or> \<not> FileExists (GnssGrpcProxyBinary kp) s \<longrightarrow>
        GnssGrpcProxyServer_Commands kp config inst s = Return [] s)
   \<and> (\<not> enable_vehicle_hal_grpc_server config
        \<or> \<not> FileExists (vehicle_hal_grpc_server_binary config) s \<longrightarrow>
        VehicleHalServer_Commands kp config inst s = Return [] s)
   \<and> (\<not> console config \<longrightarrow> ConsoleForwarder_Commands kp config inst s = Return [] s)"
  by (simp add: RootCanal_Commands_def BluetoothConnector_Commands_def
        MetricsService_Commands_def GnssGrpcProxyServer_Commands_def
        VehicleHalServer_Commands_def ConsoleForwarder_Commands_def)

theorem disabled_source_creates_nothing_witness:
  "RootCanal_Commands kp0 config_off inst0 os0 = Return [] os0
   \<and> BluetoothConnector_Commands kp0 config_off inst0 os0 = Return [] os0
   \<and> MetricsService_Commands kp0 config_off os0 = Return [] os0
   \<and> GnssGrpcProxyServer_Commands kp0 config_off inst0 os0 = Return [] os0
   \<and> VehicleHalServer_Commands kp0 config_off inst0 os0 = Return [] os0
   \<and> ConsoleForwarder_Commands kp0 config_off inst0 os0 = Return [] os0
   \<and> GnssGrpcProxyServer_Commands kp0 config_on inst0 os_empty = Return [] os_empty
   \<and> VehicleHalServer_Commands kp0 config_on inst0 os_empty = Return [] os_empty"
  using disabled_source_creates_nothing [of config_off kp0 inst0 os0]
    disabled_source_creates_nothing [of config_on kp0 inst0 os_empty]
  by (simp add: config_off_def FileExists_def os_empty_def)

text \<open>The claim as first stated, with an absent binary disabling every one of the six,
  fails: the console forwarder does not look for its binary; with the console enabled and
  no file at the path of the binary it creates and opens its two fifos and returns its
  command.\<close>

theorem disabled_source_creates_nothing_counterexample:
  "console config_on
   \<and> \<not> FileExists (ConsoleForwarderBinary kp0) os0
   \<and> map_option (map executable) (returned (ConsoleForwarder_Commands kp0 config_on inst0 os0)) =
       Some [''bin/console'']
   \<and> map_option trace (state_after (ConsoleForwarder_Commands kp0 config_on inst0 os0)) =
       Some [(Sys_mkfifo ''i/console.in'' 384, True), (Sys_mkfifo ''i/console.out'' 432, True),
             (Sys_open ''i/console.in'', True), (Sys_open ''i/console.out'', True)]"
  by (simp add: ConsoleForwarder_Commands_def FileExists_def config_on_def kp0_def inst0_def
        os0_def mkfifo_def SharedFD_Open_def record_call_def refused_def IsOpen_def Let_def
        S_0600_def S_0660_def NewCommand_def AddParameter_def single_element_emplace_def)

subsection \<open>Basic facts about the calls\<close>

lemmas os_inputs = os0_def os_stale_def os_fault7_def os_fault0_def
  os_fault1_def os_fault3_def os_later_def

lemmas calls = mkfifo_def unlink_def mkdir_def SharedFD_Open_def SharedFD_Pipe_def
  SharedFD_VsockServer_def record_call_def refused_def IsOpen_def Let_def
  S_0600_def S_0660_def S_0775_def

lemmas builder = NewCommand_def AddParameter_def AppendToLastParameter_def
  single_element_emplace_def

lemma refused_fault_at: "refused s = fault_at s 0"
  by (cases "faults s") (simp_all add: refused_def fault_at_def)

lemma fault_at_tl: "faults t = tl (faults s) \<Longrightarrow> fault_at t k = fault_at s (Suc k)"
  by (cases "faults s") (simp_all add: fault_at_def)

lemma record_call_simps [simp]:
  "faults (record_call c ok s) = tl (faults s)"
  "trace (record_call c ok s) = trace s @ [(c, ok)]"
  "fs (record_call c ok s) = fs s"
  "bound_ports (record_call c ok s) = bound_ports s"
  "next_fd (record_call c ok s) = next_fd s"
  by (simp_all add: record_call_def)

lemma Pipe_ok:
  "\<not> fault_at s 0 \<Longrightarrow>
   SharedFD_Pipe s =
     (True, FD (next_fd s), FD (Suc (next_fd s)),
      (record_call Sys_pipe True s)\<lparr>next_fd := next_fd s + 2\<rparr>)"
  by (simp add: SharedFD_Pipe_def refused_fault_at Let_def)

lemma mkfifo_ok:
  "\<not> fault_at s 0 \<Longrightarrow> fs s p = None \<Longrightarrow>
   mkfifo p m s = (0, (record_call (Sys_mkfifo p m) True s)\<lparr>fs := (fs s)(p \<mapsto> Fifo)\<rparr>)"
  by (simp add: mkfifo_def refused_fault_at Let_def)

lemma Open_simps [simp]:
  "faults (snd (SharedFD_Open p s)) = tl (faults s)"
  "trace (snd (SharedFD_Open p s)) = trace s @ [(Sys_open p, IsOpen (fst (SharedFD_Open p s)))]"
  "fs (snd (SharedFD_Open p s)) = fs s"
  "bound_ports (snd (SharedFD_Open p s)) = bound_ports s"
  by (simp_all add: SharedFD_Open_def Let_def IsOpen_def)

lemma comma_joined_snoc:
  "comma_joined (ws @ [w]) = (if ws = [] then [w] else comma_joined ws @ [Text '','', w])"
  by (induction ws rule: comma_joined.induct) simp_all

lemma AppendToLastParameter_snoc:
  "parameters c = ps @ [l] \<Longrightarrow> AppendToLastParameter p c = c\<lparr>parameters := ps @ [l @ p]\<rparr>"
  by (simp add: AppendToLastParameter_def)

lemma map_upt_shift: "map f [0..<Suc n] = f 0 # map (\<lambda>j. f (Suc j)) [0..<n]"
  by (simp add: map_upt_Suc del: upt_Suc)

subsection \<open>The kernel log monitor and its event pipes\<close>

text \<open>The loop from index \<open>i\<close> on, when none of the \<open>N - i\<close> pipes still to create is
  refused: the write ends go to the last parameter, comma-joined after the \<open>i\<close> already
  there, and the read ends to the result, both in the order of creation.\<close>

lemma event_pipes_loop_ok:
  assumes "N - i = n" "i \<le> N" "length ws = i"
    and "parameters command = ps @ [h # comma_joined ws]"
    and "\<forall>j<n. \<not> fault_at s j"
  shows "\<exists>s'. event_pipes_loop N i command ret s =
           Return (command\<lparr>parameters :=
                      ps @ [h # comma_joined
                              (ws @ map (\<lambda>j. Descriptor (FD (next_fd s + 2 * j + 1))) [0..<n])]\<rparr>,
                   ret @ map (\<lambda>j. FD (next_fd s + 2 * j)) [0..<n]) s'
         \<and> trace s' = trace s @ replicate n (Sys_pipe, True)
         \<and> fs s' = fs s"
  using assms
proof (induction n arbitrary: i command ret s ws)
  case 0
  then show ?case by (simp add: event_pipes_loop.simps)
next
  case (Suc n)
  let ?s1 = "(record_call Sys_pipe True s)\<lparr>next_fd := next_fd s + 2\<rparr>"
  let ?w = "Descriptor (FD (Suc (next_fd s)))"
  let ?c2 = "command\<lparr>parameters := ps @ [h # comma_joined (ws @ [?w])]\<rparr>"
  from Suc.prems have lt: "i < N" and nf: "\<not> fault_at s 0" by auto
  have step: "event_pipes_loop N i command ret s =
              event_pipes_loop N (Suc i) ?c2 (ret @ [FD (next_fd s)]) ?s1"
  proof (cases "i = 0")
    case True
    with Suc.prems have "ws = []" by simp
    with True lt nf Suc.prems(4) show ?thesis
      by (subst event_pipes_loop.simps)
         (simp add: Pipe_ok AppendToLastParameter_snoc)
  next
    case False
    with Suc.prems have ne: "ws \<noteq> []" by auto
    have a1: "AppendToLastParameter [Text '',''] command =
          command\<lparr>parameters := ps @ [(h # comma_joined ws) @ [Text '','']]\<rparr>"
      using Suc.prems(4) by (rule AppendToLastParameter_snoc)
    have a2: "AppendToLastParameter [?w] (AppendToLastParameter [Text '',''] command) = ?c2"
      unfolding a1 using ne
      by (simp add: AppendToLastParameter_def comma_joined_snoc)
    from False lt nf show ?thesis
      by (subst event_pipes_loop.simps) (simp add: Pipe_ok a2)
  qed
  have "\<exists>s'. event_pipes_loop N (Suc i) ?c2 (ret @ [FD (next_fd s)]) ?s1 =
           Return (?c2\<lparr>parameters :=
                      ps @ [h # comma_joined
                              ((ws @ [?w]) @
                               map (\<lambda>j. Descriptor (FD (next_fd ?s1 + 2 * j + 1))) [0..<n])]\<rparr>,
                   (ret @ [FD (next_fd s)]) @ map (\<lambda>j. FD (next_fd ?s1 + 2 * j)) [0..<n]) s'
         \<and> trace s' = trace ?s1 @ replicate n (Sys_pipe, True)
         \<and> fs s' = fs ?s1"
  proof (rule Suc.IH)
    show "N - Suc i = n" using Suc.prems by simp
    show "Suc i \<le> N" using lt by simp
    show "length (ws @ [?w]) = Suc i" using Suc.prems by simp
    show "parameters ?c2 = ps @ [h # comma_joined (ws @ [?w])]" by simp
    show "\<forall>j<n. \<not> fault_at ?s1 j"
      using Suc.prems(5) by (simp add: fault_at_tl [where s = s])
  qed
  then show ?case
    unfolding step
    by (simp add: map_upt_shift replicate_append_same del: upt_Suc)
qed

text \<open>
  C2, as amended. When the log fifo is created (its path is free and the call is not
  refused) and none of the \<open>N\<close> calls that create an event pipe is refused, the launch of
  the kernel log monitor creates exactly \<open>N\<close> pipe pairs, after the fifo and its opening;
  it returns one command and the \<open>N\<close> read ends in the order of creation; for \<open>N > 0\<close> the
  parameter \<^verbatim>\<open>-subscriber_fds=\<close> holds the \<open>N\<close> write ends in the order of creation,
  separated by commas, and for \<open>N = 0\<close> the command has no such parameter. The pair
  created \<open>i\<close>-th is \<open>(FD (f + 2 * i), FD (f + 2 * i + 1))\<close>, read end first.
\<close>

theorem kernel_log_monitor_fan_out:
  assumes free: "fs s (kernel_log_pipe_name inst) = None"
    and created: "\<not> fault_at s 0"
    and piped: "\<forall>i<N. \<not> fault_at s (i + 2)"
  shows "\<exists>pipe f s'.
           LaunchKernelLogMonitor kp inst N s =
             Return \<lparr>pipes = map (\<lambda>i. FD (f + 2 * i)) [0..<N],
                     commands =
                       [\<lparr>executable = KernelLogMonitorBinary kp,
                         parameters =
                           [Text ''-log_pipe_fd='', Descriptor pipe] #
                           (if N = 0 then []
                            else [Text ''-subscriber_fds='' #
                                  comma_joined
                                    (map (\<lambda>i. Descriptor (FD (f + 2 * i + 1))) [0..<N])])\<rparr>]\<rparr>
               s'
           \<and> trace s' = trace s @ [(Sys_mkfifo (kernel_log_pipe_name inst) S_0600, True),
                                     (Sys_open (kernel_log_pipe_name inst), IsOpen pipe)]
                            @ replicate N (Sys_pipe, True)"
proof -
  let ?log = "kernel_log_pipe_name inst"
  let ?s1 = "(record_call (Sys_mkfifo ?log S_0600) True s)\<lparr>fs := (fs s)(?log \<mapsto> Fifo)\<rparr>"
  obtain pipe s2 where op: "SharedFD_Open ?log ?s1 = (pipe, s2)"
    by (cases "SharedFD_Open ?log ?s1")
  have s2: "faults s2 = tl (faults ?s1)"
           "trace s2 = trace ?s1 @ [(Sys_open ?log, IsOpen pipe)]"
    using Open_simps(1,2) [of ?log ?s1] by (simp_all add: op)
  let ?c0 = "AddParameter [Text ''-log_pipe_fd='', Descriptor pipe]
               (NewCommand (KernelLogMonitorBinary kp))"
  have mk: "mkfifo ?log S_0600 s = (0, ?s1)" using created free by (rule mkfifo_ok)
  show ?thesis
  proof (cases "N = 0")
    case True
    then show ?thesis
      by (simp add: LaunchKernelLogMonitor_def mk op s2 AddParameter_def NewCommand_def)
  next
    case False
    let ?c1 = "AddParameter [Text ''-subscriber_fds=''] ?c0"
    have nofault: "\<forall>j<N. \<not> fault_at s2 j"
      using piped by (simp add: fault_at_tl [where s = ?s1] s2 fault_at_tl [where s = s])
    have "\<exists>s'. event_pipes_loop N 0 ?c1 [] s2 =
           Return (?c1\<lparr>parameters :=
                      [[Text ''-log_pipe_fd='', Descriptor pipe]] @
                      [Text ''-subscriber_fds='' #
                       comma_joined
                         ([] @ map (\<lambda>j. Descriptor (FD (next_fd s2 + 2 * j + 1))) [0..<N])]\<rparr>,
                   [] @ map (\<lambda>j. FD (next_fd s2 + 2 * j)) [0..<N]) s'
         \<and> trace s' = trace s2 @ replicate N (Sys_pipe, True)
         \<and> fs s' = fs s2"
      by (rule event_pipes_loop_ok) (simp_all add: nofault AddParameter_def NewCommand_def)
    then obtain s' where
      loop: "event_pipes_loop N 0 ?c1 [] s2 =
           Return (?c1\<lparr>parameters :=
                      [[Text ''-log_pipe_fd='', Descriptor pipe],
                       Text ''-subscriber_fds='' #
                         comma_joined
                              (map (\<lambda>j. Descriptor (FD (next_fd s2 + 2 * j + 1))) [0..<N])]\<rparr>,
                   map (\<lambda>j. FD (next_fd s2 + 2 * j)) [0..<N]) s'"
      and tr: "trace s' = trace s2 @ replicate N (Sys_pipe, True)"
      by auto
    from False loop show ?thesis
      by (intro exI [of _ pipe] exI [of _ "next_fd s2"] exI [of _ s'])
         (simp add: LaunchKernelLogMonitor_def mk op tr s2 AddParameter_def NewCommand_def)
  qed
qed

theorem kernel_log_monitor_fan_out_witness:
  "fs os0 (kernel_log_pipe_name inst0) = None \<and> \<not> fault_at os0 0
   \<and> \<not> fault_at os0 2 \<and> \<not> fault_at os0 3 \<and> \<not> fault_at os0 4
   \<and> returned (LaunchKernelLogMonitor kp0 inst0 3 os0) =
       Some \<lparr>pipes = [FD 4, FD 6, FD 8],
              commands =
                [\<lparr>executable = ''bin/klm'',
                  parameters =
                    [[Text ''-log_pipe_fd='', Descriptor (FD 3)],
                     [Text ''-subscriber_fds='', Descriptor (FD 5), Text '','',
                      Descriptor (FD 7), Text '','', Descriptor (FD 9)]]\<rparr>]\<rparr>"
  using kernel_log_monitor_fan_out [of os0 inst0 3 kp0]
  by (simp add: LaunchKernelLogMonitor_def event_pipes_loop.simps os_inputs inst0_def kp0_def
        calls builder fault_at_def)

text \<open>The claim as first stated fails in two ways. For \<open>N = 0\<close> on a fresh directory the
  one command has the parameter of the log pipe only: there is no subscriber parameter to
  hold zero references. And when the creation of the log fifo is refused, for \<open>N = 2\<close>, the
  launch returns no command and no read end, and creates no pipe.\<close>

theorem kernel_log_monitor_fan_out_counterexample:
  "returned (LaunchKernelLogMonitor kp0 inst0 0 os0) =
     Some \<lparr>pipes = [],
            commands = [\<lparr>executable = ''bin/klm'',
                         parameters = [[Text ''-log_pipe_fd='', Descriptor (FD 3)]]\<rparr>]\<rparr>
   \<and> returned (LaunchKernelLogMonitor kp0 inst0 2 os_fault0) = Some \<lparr>pipes = [], commands = []\<rparr>
   \<and> map_option trace (state_after (LaunchKernelLogMonitor kp0 inst0 2 os_fault0)) =
       Some [(Sys_mkfifo ''i/kernel-log-pipe'' 384, False)]"
  by (simp add: LaunchKernelLogMonitor_def os_inputs inst0_def kp0_def calls builder)

subsection \<open>Critical failures\<close>

lemma event_pipes_loop_exit:
  assumes "i + k < N" "\<forall>j<k. \<not> fault_at s j" "fault_at s k"
  shows "event_pipes_loop N i command ret s = Exit kPipeIOError"
  using assms
proof (induction k arbitrary: i command ret s)
  case 0
  then have "SharedFD_Pipe s = (False, NotOpen, NotOpen, record_call Sys_pipe False s)"
    by (simp add: SharedFD_Pipe_def refused_fault_at Let_def)
  with 0 show ?case
    by (subst event_pipes_loop.simps) simp
next
  case (Suc k)
  let ?s1 = "(record_call Sys_pipe True s)\<lparr>next_fd := next_fd s + 2\<rparr>"
  from Suc.prems have nf: "\<not> fault_at s 0" and lt: "i < N" by auto
  have rest: "\<And>c r. event_pipes_loop N (Suc i) c r ?s1 = Exit kPipeIOError"
  proof (rule Suc.IH)
    show "Suc i + k < N" using Suc.prems by simp
    show "\<forall>j<k. \<not> fault_at ?s1 j" using Suc.prems by (simp add: fault_at_tl [where s = s])
    show "fault_at ?s1 k" using Suc.prems by (simp add: fault_at_tl [where s = s])
  qed
  from lt rest show ?case
    by (subst event_pipes_loop.simps) (auto simp add: Pipe_ok [OF nf] Let_def)
qed

lemma kernel_log_monitor_exit:
  assumes "fs s (kernel_log_pipe_name inst) = None" "\<not> fault_at s 0"
    and "k < N" "\<forall>i<k. \<not> fault_at s (i + 2)" "fault_at s (k + 2)"
  shows "LaunchKernelLogMonitor kp inst N s = Exit kPipeIOError"
proof -
  let ?log = "kernel_log_pipe_name inst"
  let ?s1 = "(record_call (Sys_mkfifo ?log S_0600) True s)\<lparr>fs := (fs s)(?log \<mapsto> Fifo)\<rparr>"
  obtain pipe s2 where op: "SharedFD_Open ?log ?s1 = (pipe, s2)"
    by (cases "SharedFD_Open ?log ?s1")
  have s2: "faults s2 = tl (faults ?s1)"
    using Open_simps(1) [of ?log ?s1] by (simp add: op)
  have mk: "mkfifo ?log S_0600 s = (0, ?s1)" using assms(2,1) by (rule mkfifo_ok)
  have sh: "\<And>j. fault_at s2 j = fault_at s (j + 2)"
    by (simp add: fault_at_tl [where s = ?s1] s2 fault_at_tl [where s = s])
  have "\<And>c. event_pipes_loop N 0 c [] s2 = Exit kPipeIOError"
    by (rule event_pipes_loop_exit [where k = k]) (use assms in \<open>simp_all add: sh\<close>)
  with assms(3) show ?thesis
    by (simp add: LaunchKernelLogMonitor_def mk op)
qed

lemma tombstone_server_exit:
  "\<not> IsOpen (fst (SharedFD_VsockServer (tombstone_receiver_port inst) s)) \<Longrightarrow>
   tombstone_server kp inst d s = Exit kTombstoneServerError"
  by (cases "SharedFD_VsockServer (tombstone_receiver_port inst) s")
     (simp add: tombstone_server_def)

text \<open>
  C3. Each critical provisioning failure ends the whole process, with the exit code of
  its own category, instead of returning an empty list of commands: the config server
  whose socket cannot be bound exits with \<open>kConfigServerError\<close>; the tombstone receiver
  exits with \<open>kTombstoneDirCreationError\<close> when the missing tombstone directory cannot be
  created and with \<open>kTombstoneServerError\<close> when, the directory being there, its socket
  cannot be bound; the kernel log monitor exits with \<open>kPipeIOError\<close> when, the log fifo
  created, the creation of one of its event pipes fails (the pipe with index \<open>k\<close>, the
  earlier ones created). The four codes are four different enumerators.
\<close>

theorem critical_failures_exit:
  "(\<not> IsOpen (fst (SharedFD_VsockServer (config_server_port inst) s)) \<longrightarrow>
      ConfigServer_Commands kp inst s = Exit kConfigServerError)
   \<and> (\<not> DirectoryExists (PerInstancePath inst ''tombstones'') s
        \<and> fst (mkdir (PerInstancePath inst ''tombstones'') S_0775 s) < 0 \<longrightarrow>
        TombstoneReceiver_Commands kp inst s = Exit kTombstoneDirCreationError)
   \<and> ((DirectoryExists (PerInstancePath inst ''tombstones'') s
         \<or> 0 \<le> fst (mkdir (PerInstancePath inst ''tombstones'') S_0775 s))
        \<and> \<not> IsOpen (fst (SharedFD_VsockServer (tombstone_receiver_port inst)
                          (if DirectoryExists (PerInstancePath inst ''tombstones'') s then s
                           else snd (mkdir (PerInstancePath inst ''tombstones'') S_0775 s)))) \<longrightarrow>
        TombstoneReceiver_Commands kp inst s = Exit kTombstoneServerError)
   \<and> (fs s (kernel_log_pipe_name inst) = None \<and> \<not> fault_at s 0 \<and> k < N
        \<and> (\<forall>i<k. \<not> fault_at s (i + 2)) \<and> fault_at s (k + 2) \<longrightarrow>
        LaunchKernelLogMonitor kp inst N s = Exit kPipeIOError)
   \<and> distinct [kConfigServerError, kTombstoneDirCreationError, kTombstoneServerError,
               kPipeIOError]"
proof (intro conjI impI)
  assume "\<not> IsOpen (fst (SharedFD_VsockServer (config_server_port inst) s))"
  then show "ConfigServer_Commands kp inst s = Exit kConfigServerError"
    by (cases "SharedFD_VsockServer (config_server_port inst) s")
       (simp add: ConfigServer_Commands_def)
next
  assume "\<not> DirectoryExists (PerInstancePath inst ''tombstones'') s
        \<and> fst (mkdir (PerInstancePath inst ''tombstones'') S_0775 s) < 0"
  then show "TombstoneReceiver_Commands kp inst s = Exit kTombstoneDirCreationError"
    by (cases "mkdir (PerInstancePath inst ''tombstones'') S_0775 s")
       (simp add: TombstoneReceiver_Commands_def)
next
  assume "(DirectoryExists (PerInstancePath inst ''tombstones'') s
         \<or> 0 \<le> fst (mkdir (PerInstancePath inst ''tombstones'') S_0775 s))
        \<and> \<not> IsOpen (fst (SharedFD_VsockServer (tombstone_receiver_port inst)
                          (if DirectoryExists (PerInstancePath inst ''tombstones'') s then s
                           else snd (mkdir (PerInstancePath inst ''tombstones'') S_0775 s))))"
  then have a: "DirectoryExists (PerInstancePath inst ''tombstones'') s
         \<or> 0 \<le> fst (mkdir (PerInstancePath inst ''tombstones'') S_0775 s)"
    and b: "\<not> IsOpen (fst (SharedFD_VsockServer (tombstone_receiver_port inst)
                          (if DirectoryExists (PerInstancePath inst ''tombstones'') s then s
                           else snd (mkdir (PerInstancePath inst ''tombstones'') S_0775 s))))"
    by simp_all
  show "TombstoneReceiver_Commands kp inst s = Exit kTombstoneServerError"
  proof (cases "DirectoryExists (PerInstancePath inst ''tombstones'') s")
    case True
    with b show ?thesis
      by (simp add: TombstoneReceiver_Commands_def tombstone_server_exit)
  next
    case False
    obtain rc s1 where mk: "mkdir (PerInstancePath inst ''tombstones'') S_0775 s = (rc, s1)"
      by (cases "mkdir (PerInstancePath inst ''tombstones'') S_0775 s")
    with a b False show ?thesis
      by (simp add: TombstoneReceiver_Commands_def tombstone_server_exit)
  qed
next
  assume "fs s (kernel_log_pipe_name inst) = None \<and> \<not> fault_at s 0 \<and> k < N
        \<and> (\<forall>i<k. \<not> fault_at s (i + 2)) \<and> fault_at s (k + 2)"
  then show "LaunchKernelLogMonitor kp inst N s = Exit kPipeIOError"
    by (intro kernel_log_monitor_exit [where k = k]) simp_all
qed simp_all

theorem critical_failures_exit_witness:
  "ConfigServer_Commands kp0 inst0 os_fault0 = Exit kConfigServerError
   \<and> TombstoneReceiver_Commands kp0 inst0 os_fault0 = Exit kTombstoneDirCreationError
   \<and> TombstoneReceiver_Commands kp0 inst0 os_fault1 = Exit kTombstoneServerError
   \<and> LaunchKernelLogMonitor kp0 inst0 3 os_fault3 = Exit kPipeIOError"
  using critical_failures_exit [of inst0 os_fault0 kp0 0 1]
    critical_failures_exit [of inst0 os_fault1 kp0 0 1]
    critical_failures_exit [of inst0 os_fault3 kp0 1 3]
  by (simp add: os_inputs inst0_def calls DirectoryExists_def fault_at_def)

subsection \<open>The fifo loop of the bluetooth connector and the secure environment\<close>

lemma unlink_trace:
  "unlink p s = (rc, s1) \<Longrightarrow> \<exists>ok. trace s1 = trace s @ [(Sys_unlink p, ok)]"
  by (auto simp add: unlink_def Let_def split: if_splits)

lemma mkfifo_trace:
  "mkfifo p m s = (rc, s1) \<Longrightarrow> trace s1 = trace s @ [(Sys_mkfifo p m, \<not> rc < 0)]"
  by (auto simp add: mkfifo_def Let_def split: if_splits)

lemma Open_trace:
  "SharedFD_Open p s = (fd, s1) \<Longrightarrow> trace s1 = trace s @ [(Sys_open p, IsOpen fd)]"
  using Open_simps(2) [of p s] by simp

lemma create_fifos_run:
  "create_fifos mode paths fifos s = (r, s') \<Longrightarrow>
   \<exists>evs. trace s' = trace s @ evs
     \<and> prefix (map fst evs) (fifo_schedule mode paths)
     \<and> (\<forall>e \<in> set (butlast evs). \<not> creation_failed e)
     \<and> (case r of
          None \<Rightarrow> evs \<noteq> [] \<and> creation_failed (last evs)
        | Some all_fifos \<Rightarrow>
            map fst evs = fifo_schedule mode paths
            \<and> (\<forall>e \<in> set evs. \<not> creation_failed e)
            \<and> (\<exists>new. all_fifos = fifos @ new \<and> length new = length paths
                  \<and> (\<forall>fd \<in> set new. IsOpen fd)))"
proof (induction paths arbitrary: fifos s)
  case Nil
  then show ?case by (auto simp add: fifo_schedule_def)
next
  case (Cons path rest)
  obtain u s1 where un: "unlink path s = (u, s1)" by (cases "unlink path s")
  obtain rc s2 where mk: "mkfifo path mode s1 = (rc, s2)" by (cases "mkfifo path mode s1")
  obtain fd s3 where op: "SharedFD_Open path s2 = (fd, s3)" by (cases "SharedFD_Open path s2")
  from unlink_trace [OF un] obtain ok where t1: "trace s1 = trace s @ [(Sys_unlink path, ok)]" ..
  note t2 = mkfifo_trace [OF mk]
  note t3 = Open_trace [OF op]
  have sched: "fifo_schedule mode (path # rest) =
      [Sys_unlink path, Sys_mkfifo path mode, Sys_open path] @ fifo_schedule mode rest"
    by (simp add: fifo_schedule_def)
  show ?case
  proof (cases "rc < 0")
    case True
    with Cons.prems un mk have "r = None" "s' = s2" by simp_all
    with True t1 t2 show ?thesis
      by (intro exI [of _ "[(Sys_unlink path, ok), (Sys_mkfifo path mode, False)]"])
         (simp add: sched)
  next
    case rc_ok: False
    show ?thesis
    proof (cases "IsOpen fd")
      case False
      with rc_ok Cons.prems un mk op have "r = None" "s' = s3" by simp_all
      with False rc_ok t1 t2 t3 show ?thesis
        by (intro exI [of _ "[(Sys_unlink path, ok), (Sys_mkfifo path mode, True),
                             (Sys_open path, False)]"])
           (simp add: sched)
    next
      case True
      with rc_ok Cons.prems un mk op
      have "create_fifos mode rest (fifos @ [fd]) s3 = (r, s')" by simp
      from Cons.IH [OF this] obtain evs where
        tr: "trace s' = trace s3 @ evs"
        and pre: "prefix (map fst evs) (fifo_schedule mode rest)"
        and bl: "\<forall>e \<in> set (butlast evs). \<not> creation_failed e"
        and res: "case r of
          None \<Rightarrow> evs \<noteq> [] \<and> creation_failed (last evs)
        | Some all_fifos \<Rightarrow>
            map fst evs = fifo_schedule mode rest
            \<and> (\<forall>e \<in> set evs. \<not> creation_failed e)
            \<and> (\<exists>new. all_fifos = (fifos @ [fd]) @ new \<and> length new = length rest
                  \<and> (\<forall>fd \<in> set new. IsOpen fd))"
        by blast
      let ?three = "[(Sys_unlink path, ok), (Sys_mkfifo path mode, True), (Sys_open path, True)]"
      have "trace s' = trace s @ (?three @ evs)"
        using tr t1 t2 t3 rc_ok True by simp
      moreover have "prefix (map fst (?three @ evs)) (fifo_schedule mode (path # rest))"
        using pre by (simp add: sched)
      moreover have "\<forall>e \<in> set (butlast (?three @ evs)). \<not> creation_failed e"
        using bl by (auto simp add: butlast_append)
      moreover have "case r of
          None \<Rightarrow> ?three @ evs \<noteq> [] \<and> creation_failed (last (?three @ evs))
        | Some all_fifos \<Rightarrow>
            map fst (?three @ evs) = fifo_schedule mode (path # rest)
            \<and> (\<forall>e \<in> set (?three @ evs). \<not> creation_failed e)
            \<and> (\<exists>new. all_fifos = fifos @ new \<and> length new = length (path # rest)
                  \<and> (\<forall>fd \<in> set new. IsOpen fd))"
      proof (cases r)
        case None
        with res show ?thesis by simp
      next
        case (Some all_fifos)
        with res obtain new where "all_fifos = (fifos @ [fd]) @ new" "length new = length rest"
          "\<forall>fd \<in> set new. IsOpen fd" by auto
        with True have "all_fifos = fifos @ (fd # new) \<and> length (fd # new) = length (path # rest)
          \<and> (\<forall>fd \<in> set (fd # new). IsOpen fd)" by simp
        then have "\<exists>new. all_fifos = fifos @ new \<and> length new = length (path # rest)
                  \<and> (\<forall>fd \<in> set new. IsOpen fd)" by blast
        with Some res show ?thesis by (simp add: sched)
      qed
      ultimately show ?thesis by blast
    qed
  qed
qed


lemma IsOpen_FD: "IsOpen fd \<Longrightarrow> \<exists>n. fd = FD n"
  by (cases fd) (simp_all add: IsOpen_def)

lemma four_open:
  assumes "length new = 4" "\<forall>fd \<in> set new. IsOpen fd"
  shows "\<exists>a b c d. new = [FD a, FD b, FD c, FD d]"
proof -
  from assms(1) obtain w x y z where new: "new = [w, x, y, z]"
    by (auto simp add: numeral_eq_Suc length_Suc_conv)
  with assms(2) have "IsOpen w" "IsOpen x" "IsOpen y" "IsOpen z" by simp_all
  then obtain a b c d where "w = FD a" "x = FD b" "y = FD c" "z = FD d"
    by (metis IsOpen_FD)
  with new show ?thesis by blast
qed

lemma failure_is_last:
  assumes "\<forall>e \<in> set (butlast evs). \<not> creation_failed e"
    and "k < length evs" "creation_failed (evs ! k)"
  shows "Suc k = length evs"
proof (rule ccontr)
  assume "Suc k \<noteq> length evs"
  with assms(2) have "k < length (butlast evs)" by simp
  then have "butlast evs ! k \<in> set (butlast evs)" "butlast evs ! k = evs ! k"
    by (rule nth_mem, simp add: nth_butlast)
  with assms(1,3) show False by auto
qed

lemma fifo_schedule_Cons:
  "fifo_schedule mode (p # ps) =
     Sys_unlink p # Sys_mkfifo p mode # Sys_open p # fifo_schedule mode ps"
  by (simp add: fifo_schedule_def)

lemma fifo_schedule_length: "length (fifo_schedule mode paths) = 3 * length paths"
  by (induction paths) (simp_all add: fifo_schedule_Cons fifo_schedule_def)

lemma fifo_schedule_nth:
  "j < length paths \<Longrightarrow>
   fifo_schedule mode paths ! (3 * j + 1) = Sys_mkfifo (paths ! j) mode
   \<and> fifo_schedule mode paths ! (3 * j + 2) = Sys_open (paths ! j)"
proof (induction paths arbitrary: j)
  case Nil
  then show ?case by simp
next
  case (Cons p ps)
  show ?case
  proof (cases j)
    case 0
    then show ?thesis by (simp add: fifo_schedule_Cons)
  next
    case (Suc i)
    with Cons.prems have "i < length ps" by simp
    from Cons.IH [OF this] Suc show ?thesis
      by (simp add: fifo_schedule_Cons)
  qed
qed

lemma prefix_nth:
  "prefix (map fst evs) sched \<Longrightarrow> i < length evs \<Longrightarrow> fst (evs ! i) = sched ! i"
  by (auto simp add: prefix_def nth_append)

lemma pipe_failed_creation_failed:
  assumes pre: "prefix (map fst evs) (fifo_schedule mode paths)"
    and pf: "pipe_failed evs j"
  shows "\<exists>i. i < length evs \<and> creation_failed (evs ! i) \<and> i \<le> 3 * j + 2"
proof -
  from pre have "length evs \<le> 3 * length paths"
    using fifo_schedule_length [of mode paths] by (auto dest: prefix_length_le)
  with pf have j: "j < length paths" by (auto simp add: pipe_failed_def)
  from pf show ?thesis
    unfolding pipe_failed_def
  proof
    assume a: "3 * j + 1 < length evs \<and> \<not> snd (evs ! (3 * j + 1))"
    with prefix_nth [OF pre, of "3 * j + 1"] fifo_schedule_nth [OF j, of mode]
    have "fst (evs ! (3 * j + 1)) = Sys_mkfifo (paths ! j) mode" by simp
    with a have "creation_failed (evs ! (3 * j + 1))"
      by (cases "evs ! (3 * j + 1)") simp
    with a show ?thesis by (intro exI [of _ "3 * j + 1"]) simp
  next
    assume a: "3 * j + 2 < length evs \<and> \<not> snd (evs ! (3 * j + 2))"
    with prefix_nth [OF pre, of "3 * j + 2"] fifo_schedule_nth [OF j, of mode]
    have "fst (evs ! (3 * j + 2)) = Sys_open (paths ! j)" by simp
    with a have "creation_failed (evs ! (3 * j + 2))"
      by (cases "evs ! (3 * j + 2)") simp
    with a show ?thesis by (intro exI [of _ "3 * j + 2"]) simp
  qed
qed

text \<open>
  C4. The secure environment needs four fifos. Its run always returns, and the calls it
  makes are a prefix of the schedule \<^verbatim>\<open>unlink, mkfifo, open\<close> for the first path, then for
  the second, and so on. If a call that creates or opens a fifo fails, that call is the
  last one the service makes and no command is returned; so when the fifo with index \<open>j\<close>
  fails, the trace ends within the three calls of that fifo: nothing is attempted for a
  later one. What is returned is either nothing or the one command with all four
  descriptors open, never a partly wired command.
\<close>

theorem secure_environment_fail_fast:
  "\<exists>cmds s' evs.
     SecureEnvironment_Commands kp config inst s = Return cmds s'
     \<and> trace s' = trace s @ evs
     \<and> prefix (map fst evs)
         (fifo_schedule S_0600
            [PerInstanceInternalPath inst ''keymaster_fifo_vm.in'',
             PerInstanceInternalPath inst ''keymaster_fifo_vm.out'',
             PerInstanceInternalPath inst ''gatekeeper_fifo_vm.in'',
             PerInstanceInternalPath inst ''gatekeeper_fifo_vm.out''])
     \<and> (\<forall>k<length evs. creation_failed (evs ! k) \<longrightarrow> cmds = [] \<and> Suc k = length evs)
     \<and> (\<forall>j. pipe_failed evs j \<longrightarrow> cmds = [] \<and> length evs \<le> 3 * (j + 1))
     \<and> (cmds = []
        \<or> (\<exists>a b c d.
              cmds =
                [\<lparr>executable = HostBinaryPath kp ''secure_env'',
                  parameters =
                    [[Text ''-keymaster_fd_out='', Descriptor (FD a)],
                     [Text ''-keymaster_fd_in='', Descriptor (FD b)],
                     [Text ''-gatekeeper_fd_out='', Descriptor (FD c)],
                     [Text ''-gatekeeper_fd_in='', Descriptor (FD d)],
                     [Text ''-keymint_impl='',
                      Text (if Keymint \<in> secure_hals config then ''tpm'' else ''software'')],
                     [Text ''-gatekeeper_impl='',
                      Text (if Gatekeeper \<in> secure_hals config then ''tpm''
                            else ''software'')]]\<rparr>]))"
proof -
  let ?paths = "[PerInstanceInternalPath inst ''keymaster_fifo_vm.in'',
             PerInstanceInternalPath inst ''keymaster_fifo_vm.out'',
             PerInstanceInternalPath inst ''gatekeeper_fifo_vm.in'',
             PerInstanceInternalPath inst ''gatekeeper_fifo_vm.out'']"
  obtain r s' where run: "create_fifos S_0600 ?paths [] s = (r, s')"
    by (cases "create_fifos S_0600 ?paths [] s")
  from create_fifos_run [OF run] obtain evs where
    tr: "trace s' = trace s @ evs"
    and pre: "prefix (map fst evs) (fifo_schedule S_0600 ?paths)"
    and bl: "\<forall>e \<in> set (butlast evs). \<not> creation_failed e"
    and res: "case r of
          None \<Rightarrow> evs \<noteq> [] \<and> creation_failed (last evs)
        | Some all_fifos \<Rightarrow>
            map fst evs = fifo_schedule S_0600 ?paths
            \<and> (\<forall>e \<in> set evs. \<not> creation_failed e)
            \<and> (\<exists>new. all_fifos = [] @ new \<and> length new = length ?paths
                  \<and> (\<forall>fd \<in> set new. IsOpen fd))"
    by blast
  have last_call: "Suc k = length evs" if "k < length evs" "creation_failed (evs ! k)" for k
    using bl that by (rule failure_is_last)
  have within: "length evs \<le> 3 * (j + 1)" if "pipe_failed evs j" for j
  proof -
    from pipe_failed_creation_failed [OF pre that] obtain i where
      "i < length evs" "creation_failed (evs ! i)" "i \<le> 3 * j + 2" by blast
    with last_call [of i] show ?thesis by simp
  qed
  show ?thesis
  proof (cases r)
    case None
    with run have "SecureEnvironment_Commands kp config inst s = Return [] s'"
      by (simp add: SecureEnvironment_Commands_def)
    with tr pre last_call within show ?thesis
      by (intro exI [of _ "[]"] exI [of _ s'] exI [of _ evs]) simp
  next
    case (Some all_fifos)
    with res have nofail: "\<forall>e \<in> set evs. \<not> creation_failed e"
      and "length all_fifos = 4" "\<forall>fd \<in> set all_fifos. IsOpen fd"
      by auto
    then obtain a b c d where fifos: "all_fifos = [FD a, FD b, FD c, FD d]"
      using four_open by blast
    let ?cmd = "\<lparr>executable = HostBinaryPath kp ''secure_env'',
                  parameters =
                    [[Text ''-keymaster_fd_out='', Descriptor (FD a)],
                     [Text ''-keymaster_fd_in='', Descriptor (FD b)],
                     [Text ''-gatekeeper_fd_out='', Descriptor (FD c)],
                     [Text ''-gatekeeper_fd_in='', Descriptor (FD d)],
                     [Text ''-keymint_impl='',
                      Text (if Keymint \<in> secure_hals config then ''tpm'' else ''software'')],
                     [Text ''-gatekeeper_impl='',
                      Text (if Gatekeeper \<in> secure_hals config then ''tpm''
                            else ''software'')]]\<rparr>"
    from run Some fifos
    have "SecureEnvironment_Commands kp config inst s = Return [?cmd] s'"
      by (simp add: SecureEnvironment_Commands_def builder)
    moreover have "\<forall>k<length evs. creation_failed (evs ! k) \<longrightarrow> [?cmd] = [] \<and> Suc k = length evs"
      using nofail by auto
    moreover have "\<forall>j. pipe_failed evs j \<longrightarrow> [?cmd] = [] \<and> length evs \<le> 3 * (j + 1)"
    proof (intro allI impI)
      fix j assume "pipe_failed evs j"
      from pipe_failed_creation_failed [OF pre this] nofail show
        "[?cmd] = [] \<and> length evs \<le> 3 * (j + 1)" by auto
    qed
    ultimately show ?thesis
      using tr pre by blast
  qed
qed

text \<open>When the environment refuses the creation of the third fifo (index 2, the eighth
  call), the trace stops there and no command is returned.\<close>

theorem secure_environment_fail_fast_witness:
  "returned (SecureEnvironment_Commands kp0 config_on inst0 os_fault7) = Some []
   \<and> map_option trace (state_after (SecureEnvironment_Commands kp0 config_on inst0 os_fault7)) =
       Some [(Sys_unlink ''i/internal/keymaster_fifo_vm.in'', False),
             (Sys_mkfifo ''i/internal/keymaster_fifo_vm.in'' 384, True),
             (Sys_open ''i/internal/keymaster_fifo_vm.in'', True),
             (Sys_unlink ''i/internal/keymaster_fifo_vm.out'', False),
             (Sys_mkfifo ''i/internal/keymaster_fifo_vm.out'' 384, True),
             (Sys_open ''i/internal/keymaster_fifo_vm.out'', True),
             (Sys_unlink ''i/internal/gatekeeper_fifo_vm.in'', False),
             (Sys_mkfifo ''i/internal/gatekeeper_fifo_vm.in'' 384, False)]
   \<and> pipe_failed
        [(Sys_unlink ''i/internal/keymaster_fifo_vm.in'', False),
         (Sys_mkfifo ''i/internal/keymaster_fifo_vm.in'' 384, True),
         (Sys_open ''i/internal/keymaster_fifo_vm.in'', True),
         (Sys_unlink ''i/internal/keymaster_fifo_vm.out'', False),
         (Sys_mkfifo ''i/internal/keymaster_fifo_vm.out'' 384, True),
         (Sys_open ''i/internal/keymaster_fifo_vm.out'', True),
         (Sys_unlink ''i/internal/gatekeeper_fifo_vm.in'', False),
         (Sys_mkfifo ''i/internal/gatekeeper_fifo_vm.in'' 384, False)] 2"
proof -
  let ?evs = "[(Sys_unlink ''i/internal/keymaster_fifo_vm.in'', False),
             (Sys_mkfifo ''i/internal/keymaster_fifo_vm.in'' 384, True),
             (Sys_open ''i/internal/keymaster_fifo_vm.in'', True),
             (Sys_unlink ''i/internal/keymaster_fifo_vm.out'', False),
             (Sys_mkfifo ''i/internal/keymaster_fifo_vm.out'' 384, True),
             (Sys_open ''i/internal/keymaster_fifo_vm.out'', True),
             (Sys_unlink ''i/internal/gatekeeper_fifo_vm.in'', False),
             (Sys_mkfifo ''i/internal/gatekeeper_fifo_vm.in'' 384, False)]"
  have "\<exists>s'. SecureEnvironment_Commands kp0 config_on inst0 os_fault7 = Return [] s'
     \<and> trace s' = ?evs"
    by (simp add: SecureEnvironment_Commands_def os_inputs inst0_def kp0_def calls)
  then obtain s1 where r1: "SecureEnvironment_Commands kp0 config_on inst0 os_fault7 = Return [] s1"
    and t1: "trace s1 = ?evs" by blast
  have pf: "pipe_failed ?evs 2" by (simp add: pipe_failed_def)
  from secure_environment_fail_fast [of kp0 config_on inst0 os_fault7]
  obtain cmds s' evs where
    "SecureEnvironment_Commands kp0 config_on inst0 os_fault7 = Return cmds s'"
    "trace s' = trace os_fault7 @ evs"
    "\<forall>j. pipe_failed evs j \<longrightarrow> cmds = [] \<and> length evs \<le> 3 * (j + 1)"
    by blast
  with r1 t1 pf have "s' = s1" "cmds = []" by (simp_all add: os_inputs)
  with r1 t1 pf show ?thesis by simp
qed

subsection \<open>The composition\<close>

lemmas sources = ConfigServer_Commands_def ConsoleForwarder_Commands_def
  BluetoothConnector_Commands_def GnssGrpcProxyServer_Commands_def
  LogcatReceiver_Commands_def MetricsService_Commands_def RootCanal_Commands_def
  SecureEnvironment_Commands_def TombstoneReceiver_Commands_def tombstone_server_def
  VehicleHalServer_Commands_def DirectoryExists_def FileExists_def

lemma compose_loop_invoke_all:
  "compose_loop kp config inst xs collected s =
     (case invoke_all kp config inst xs s of
        Exit code \<Rightarrow> Exit code
      | Return outs s' \<Rightarrow> Return (collected @ concat outs) s')"
  by (induction xs arbitrary: collected s) (simp_all split: run.splits)

lemma invoke_all_length:
  "invoke_all kp config inst xs s = Return outs s' \<Longrightarrow> length outs = length xs"
  by (induction xs arbitrary: outs s) (auto split: run.splits)

text \<open>
  C6. The composition runs the registered command sources in the order of registration,
  each once and each from the state its predecessor left, and returns exactly the
  concatenation of what they return, one output per registered source: it removes, adds
  and reorders nothing. (A source that ends the process ends the composition with the
  same exit code.)
\<close>

theorem compose_is_concatenation:
  "Compose kp config inst s =
     (case invoke_all kp config inst launchComponent s of
        Exit code \<Rightarrow> Exit code
      | Return outs s' \<Rightarrow> Return (concat outs) s')
   \<and> (\<forall>outs s'. invoke_all kp config inst launchComponent s = Return outs s' \<longrightarrow>
         length outs = length launchComponent)"
  by (simp add: Compose_def compose_loop_invoke_all invoke_all_length split: run.splits)

theorem compose_is_concatenation_witness:
  "map_option (map (map executable))
     (returned (invoke_all kp0 config_off inst0 launchComponent os0)) =
     Some [[''bin/config''], [], [], [], [''bin/logcat''], [], [], [''out/bin/secure_env''],
           [''bin/tomb''], []]
   \<and> map_option (map executable) (returned (Compose kp0 config_off inst0 os0)) =
       Some [''bin/config'', ''bin/logcat'', ''out/bin/secure_env'', ''bin/tomb'']"
proof -
  have inv: "map_option (map (map executable))
     (returned (invoke_all kp0 config_off inst0 launchComponent os0)) =
     Some [[''bin/config''], [], [], [], [''bin/logcat''], [], [], [''out/bin/secure_env''],
           [''bin/tomb''], []]"
    by (simp add: launchComponent_def sources os_inputs inst0_def kp0_def config_off_def
          calls builder)
  then obtain outs s' where r: "invoke_all kp0 config_off inst0 launchComponent os0 = Return outs s'"
    by (cases "invoke_all kp0 config_off inst0 launchComponent os0") simp_all
  with inv have outs: "map (map executable) outs = 
        [[''bin/config''], [], [], [], [''bin/logcat''], [], [], [''out/bin/secure_env''],
           [''bin/tomb''], []]" by simp
  from compose_is_concatenation [of kp0 config_off inst0 os0] r
  have "Compose kp0 config_off inst0 os0 = Return (concat outs) s'" by simp
  then have "map_option (map executable) (returned (Compose kp0 config_off inst0 os0)) =
      Some (concat (map (map executable) outs))"
    by (simp add: map_concat)
  with inv outs show ?thesis by simp
qed

subsection \<open>Fifos left by an earlier run\<close>

text \<open>
  C8. The claim is that every command source unlinks a fifo path an earlier run may have
  left before it creates the fifo. \<open>BluetoothConnector\<close> and \<open>SecureEnvironment\<close> do;
  \<open>LogcatReceiver\<close> (as \<open>GnssGrpcProxyServer\<close>, \<open>ConsoleForwarder\<close> and the kernel log
  monitor) calls \<^verbatim>\<open>mkfifo\<close> at once. Run on a fresh directory the logcat receiver returns
  its command and leaves its fifo; run again on what it left, or on any directory with a
  fifo at that path, it makes the one call \<^verbatim>\<open>mkfifo\<close>, which fails, and returns no
  command. The bluetooth connector run twice returns its command both times.
\<close>

theorem stale_fifo_is_not_unlinked:
  "(case LogcatReceiver_Commands kp0 inst0 os0 of
      Exit code \<Rightarrow> False
    | Return cmds s1 \<Rightarrow>
        map executable cmds = [''bin/logcat'']
        \<and> fs s1 ''i/logcat-pipe'' = Some Fifo
        \<and> returned (LogcatReceiver_Commands kp0 inst0 s1) = Some [])
   \<and> returned (LogcatReceiver_Commands kp0 inst0 os_stale) = Some []
   \<and> map_option trace (state_after (LogcatReceiver_Commands kp0 inst0 os_stale)) =
       Some [(Sys_mkfifo ''i/logcat-pipe'' 384, False)]
   \<and> (case BluetoothConnector_Commands kp0 config_on inst0 os0 of
        Exit code \<Rightarrow> False
      | Return cmds s1 \<Rightarrow>
          map executable cmds = [''out/bin/bt_connector'']
          \<and> fs s1 ''i/internal/bt_fifo_vm.in'' = Some Fifo
          \<and> map_option (map executable)
               (returned (BluetoothConnector_Commands kp0 config_on inst0 s1)) =
              Some [''out/bin/bt_connector''])"
  by (simp add: sources os_inputs inst0_def kp0_def config_on_def calls builder)

subsection \<open>Two compositions with the same configuration\<close>

lemma agree_refused: "os_agree s t \<Longrightarrow> refused s = refused t"
  by (simp add: os_agree_def refused_def)

lemma agree_mkfifo:
  assumes "os_agree s t"
  shows "fst (mkfifo p m s) = fst (mkfifo p m t)"
    and "os_agree (snd (mkfifo p m s)) (snd (mkfifo p m t))"
  using assms agree_refused [OF assms] by (auto simp add: mkfifo_def os_agree_def Let_def)

lemma agree_unlink:
  assumes "os_agree s t"
  shows "os_agree (snd (unlink p s)) (snd (unlink p t))"
  using assms agree_refused [OF assms] by (auto simp add: unlink_def os_agree_def Let_def)

lemma agree_mkdir:
  assumes "os_agree s t"
  shows "fst (mkdir p m s) = fst (mkdir p m t)"
    and "os_agree (snd (mkdir p m s)) (snd (mkdir p m t))"
  using assms agree_refused [OF assms] by (auto simp add: mkdir_def os_agree_def Let_def)

lemma agree_Open:
  assumes "os_agree s t"
  shows "IsOpen (fst (SharedFD_Open p s)) = IsOpen (fst (SharedFD_Open p t))"
    and "arg_shape (Descriptor (fst (SharedFD_Open p s))) =
         arg_shape (Descriptor (fst (SharedFD_Open p t)))"
    and "os_agree (snd (SharedFD_Open p s)) (snd (SharedFD_Open p t))"
  using assms agree_refused [OF assms]
  by (auto simp add: SharedFD_Open_def os_agree_def Let_def IsOpen_def)

lemma agree_VsockServer:
  assumes "os_agree s t"
  shows "IsOpen (fst (SharedFD_VsockServer p s)) = IsOpen (fst (SharedFD_VsockServer p t))"
    and "arg_shape (Descriptor (fst (SharedFD_VsockServer p s))) =
         arg_shape (Descriptor (fst (SharedFD_VsockServer p t)))"
    and "os_agree (snd (SharedFD_VsockServer p s)) (snd (SharedFD_VsockServer p t))"
  using assms agree_refused [OF assms]
  by (auto simp add: SharedFD_VsockServer_def os_agree_def Let_def IsOpen_def)

lemma agree_exists:
  assumes "os_agree s t"
  shows "FileExists p s = FileExists p t" and "DirectoryExists p s = DirectoryExists p t"
  using assms by (simp_all add: FileExists_def DirectoryExists_def os_agree_def)

lemma command_shape_simps [simp]:
  "command_shape (NewCommand path) = NewCommand path"
  "command_shape (AddParameter p c) = AddParameter (map arg_shape p) (command_shape c)"
  by (simp_all add: command_shape_def NewCommand_def AddParameter_def)

lemma run_agree_empty [simp]: "run_agree (Return [] s) (Return [] t) = os_agree s t"
  by simp

lemma agree_RootCanal:
  "os_agree s t \<Longrightarrow>
   run_agree (RootCanal_Commands kp config inst s) (RootCanal_Commands kp config inst t)"
  by (simp add: RootCanal_Commands_def single_element_emplace_def Let_def)

lemma agree_Metrics:
  "os_agree s t \<Longrightarrow>
   run_agree (MetricsService_Commands kp config s) (MetricsService_Commands kp config t)"
  by (simp add: MetricsService_Commands_def single_element_emplace_def)

lemma agree_VehicleHal:
  "os_agree s t \<Longrightarrow>
   run_agree (VehicleHalServer_Commands kp config inst s)
     (VehicleHalServer_Commands kp config inst t)"
  by (simp add: VehicleHalServer_Commands_def single_element_emplace_def Let_def
        agree_exists [of s t])

lemma agree_Logcat:
  assumes "os_agree s t"
  shows "run_agree (LogcatReceiver_Commands kp inst s) (LogcatReceiver_Commands kp inst t)"
proof -
  let ?p = "logcat_pipe_name inst"
  note a1 = agree_mkfifo [OF assms, of ?p S_0600]
  note a2 = agree_Open [OF a1(2), of ?p]
  show ?thesis
    by (simp add: LogcatReceiver_Commands_def single_element_emplace_def Let_def split_beta
          a1 a2)
qed

lemma agree_ConfigServer:
  assumes "os_agree s t"
  shows "run_agree (ConfigServer_Commands kp inst s) (ConfigServer_Commands kp inst t)"
proof -
  note a1 = agree_VsockServer [OF assms, of "config_server_port inst"]
  show ?thesis
    by (simp add: ConfigServer_Commands_def single_element_emplace_def Let_def split_beta a1)
qed

lemma agree_tombstone_server:
  assumes "os_agree s t"
  shows "run_agree (tombstone_server kp inst d s) (tombstone_server kp inst d t)"
proof -
  note a1 = agree_VsockServer [OF assms, of "tombstone_receiver_port inst"]
  show ?thesis
    by (simp add: tombstone_server_def single_element_emplace_def Let_def split_beta a1)
qed

lemma agree_Tombstone:
  assumes "os_agree s t"
  shows "run_agree (TombstoneReceiver_Commands kp inst s)
           (TombstoneReceiver_Commands kp inst t)"
proof -
  let ?d = "PerInstancePath inst ''tombstones''"
  note e = agree_exists(2) [OF assms, of ?d]
  note a1 = agree_mkdir [OF assms, of ?d S_0775]
  note a2 = agree_tombstone_server [OF a1(2), of kp inst ?d]
  note a3 = agree_tombstone_server [OF assms, of kp inst ?d]
  show ?thesis
    by (simp add: TombstoneReceiver_Commands_def Let_def split_beta e a1 a2 a3)
qed

lemma agree_Gnss:
  assumes "os_agree s t"
  shows "run_agree (GnssGrpcProxyServer_Commands kp config inst s)
           (GnssGrpcProxyServer_Commands kp config inst t)"
proof -
  note e = agree_exists(1) [OF assms, of "GnssGrpcProxyBinary kp"]
  note a1 = agree_mkfifo [OF assms, of "gnss_in_pipe_name inst" S_0600]
  note a2 = agree_mkfifo [OF a1(2), of "gnss_out_pipe_name inst" S_0660]
  note a3 = agree_Open [OF a2(2), of "gnss_in_pipe_name inst"]
  note a4 = agree_Open [OF a3(3), of "gnss_out_pipe_name inst"]
  show ?thesis
    using assms
    by (simp add: GnssGrpcProxyServer_Commands_def single_element_emplace_def Let_def
          split_beta e a1 a2 a3 a4)
qed

lemma agree_Console:
  assumes "os_agree s t"
  shows "run_agree (ConsoleForwarder_Commands kp config inst s)
           (ConsoleForwarder_Commands kp config inst t)"
proof -
  note a1 = agree_mkfifo [OF assms, of "console_in_pipe_name inst" S_0600]
  note a2 = agree_mkfifo [OF a1(2), of "console_out_pipe_name inst" S_0660]
  note a3 = agree_Open [OF a2(2), of "console_in_pipe_name inst"]
  note a4 = agree_Open [OF a3(3), of "console_out_pipe_name inst"]
  show ?thesis
    using assms
    by (simp add: ConsoleForwarder_Commands_def single_element_emplace_def Let_def
          split_beta a1 a2 a3 a4)
qed


lemma create_fifos_length:
  "create_fifos mode paths fifos s = (Some all_fifos, s') \<Longrightarrow>
   length all_fifos = length fifos + length paths"
  by (drule create_fifos_run) auto

lemma agree_create_fifos:
  assumes "os_agree s t"
    and "map (\<lambda>fd. arg_shape (Descriptor fd)) f1 = map (\<lambda>fd. arg_shape (Descriptor fd)) f2"
  shows "rel_option (\<lambda>a b. map (\<lambda>fd. arg_shape (Descriptor fd)) a =
                            map (\<lambda>fd. arg_shape (Descriptor fd)) b)
           (fst (create_fifos mode paths f1 s)) (fst (create_fifos mode paths f2 t))
         \<and> os_agree (snd (create_fifos mode paths f1 s)) (snd (create_fifos mode paths f2 t))"
  using assms
proof (induction paths arbitrary: f1 f2 s t)
  case Nil
  then show ?case by simp
next
  case (Cons path rest)
  note a0 = agree_unlink [OF Cons.prems(1), of path]
  note a1 = agree_mkfifo [OF a0, of path mode]
  note a2 = agree_Open [OF a1(2), of path]
  let ?s3 = "snd (SharedFD_Open path (snd (mkfifo path mode (snd (unlink path s)))))"
  let ?t3 = "snd (SharedFD_Open path (snd (mkfifo path mode (snd (unlink path t)))))"
  let ?fd1 = "fst (SharedFD_Open path (snd (mkfifo path mode (snd (unlink path s)))))"
  let ?fd2 = "fst (SharedFD_Open path (snd (mkfifo path mode (snd (unlink path t)))))"
  have "map (\<lambda>fd. arg_shape (Descriptor fd)) (f1 @ [?fd1]) =
        map (\<lambda>fd. arg_shape (Descriptor fd)) (f2 @ [?fd2])"
    using Cons.prems(2) a2(2) by simp
  note ih = Cons.IH [OF a2(3) this]
  show ?case
    using ih by (simp add: split_beta a1 a2(1,3))
qed

lemma shape_nth:
  assumes "map (\<lambda>fd. arg_shape (Descriptor fd)) a = map (\<lambda>fd. arg_shape (Descriptor fd)) b"
    and "i < length a"
  shows "arg_shape (Descriptor (a ! i)) = arg_shape (Descriptor (b ! i))"
proof -
  from assms(1) have "length a = length b" by (rule map_eq_imp_length_eq)
  with assms(2) have "map (\<lambda>fd. arg_shape (Descriptor fd)) a ! i = arg_shape (Descriptor (a ! i))"
    "map (\<lambda>fd. arg_shape (Descriptor fd)) b ! i = arg_shape (Descriptor (b ! i))"
    by simp_all
  with assms(1) show ?thesis by simp
qed

lemma agree_Bluetooth:
  assumes "os_agree s t"
  shows "run_agree (BluetoothConnector_Commands kp config inst s)
           (BluetoothConnector_Commands kp config inst t)"
proof -
  let ?paths = "[PerInstanceInternalPath inst ''bt_fifo_vm.in'',
                 PerInstanceInternalPath inst ''bt_fifo_vm.out'']"
  obtain r1 s1 where c1: "create_fifos S_0660 ?paths [] s = (r1, s1)"
    by (cases "create_fifos S_0660 ?paths [] s")
  obtain r2 t1 where c2: "create_fifos S_0660 ?paths [] t = (r2, t1)"
    by (cases "create_fifos S_0660 ?paths [] t")
  from agree_create_fifos [OF assms, of "[]" "[]" S_0660 ?paths] c1 c2
  have rel: "rel_option (\<lambda>a b. map (\<lambda>fd. arg_shape (Descriptor fd)) a =
                            map (\<lambda>fd. arg_shape (Descriptor fd)) b) r1 r2"
    and ag: "os_agree s1 t1" by simp_all
  show ?thesis
  proof (cases r1)
    case None
    with rel have "r2 = None" by (cases r2) simp_all
    with None c1 c2 ag assms show ?thesis
      by (simp add: BluetoothConnector_Commands_def)
  next
    case (Some a)
    with rel obtain b where r2: "r2 = Some b"
      and sh: "map (\<lambda>fd. arg_shape (Descriptor fd)) a = map (\<lambda>fd. arg_shape (Descriptor fd)) b"
      by (cases r2) simp_all
    from c1 have "create_fifos S_0660 ?paths [] s = (Some a, s1)"
      unfolding Some .
    then have "length a = length ([] :: SharedFD list) + length ?paths"
      by (rule create_fifos_length)
    then have "length a = 2" by simp
    then have "arg_shape (Descriptor (a ! 0)) = arg_shape (Descriptor (b ! 0))"
      "arg_shape (Descriptor (a ! 1)) = arg_shape (Descriptor (b ! 1))"
      using sh by (simp_all add: shape_nth)
    with Some r2 c1 c2 ag assms show ?thesis
      by (simp add: BluetoothConnector_Commands_def single_element_emplace_def Let_def)
  qed
qed

lemma agree_SecureEnvironment:
  assumes "os_agree s t"
  shows "run_agree (SecureEnvironment_Commands kp config inst s)
           (SecureEnvironment_Commands kp config inst t)"
proof -
  let ?paths = "[PerInstanceInternalPath inst ''keymaster_fifo_vm.in'',
                 PerInstanceInternalPath inst ''keymaster_fifo_vm.out'',
                 PerInstanceInternalPath inst ''gatekeeper_fifo_vm.in'',
                 PerInstanceInternalPath inst ''gatekeeper_fifo_vm.out'']"
  obtain r1 s1 where c1: "create_fifos S_0600 ?paths [] s = (r1, s1)"
    by (cases "create_fifos S_0600 ?paths [] s")
  obtain r2 t1 where c2: "create_fifos S_0600 ?paths [] t = (r2, t1)"
    by (cases "create_fifos S_0600 ?paths [] t")
  from agree_create_fifos [OF assms, of "[]" "[]" S_0600 ?paths] c1 c2
  have rel: "rel_option (\<lambda>a b. map (\<lambda>fd. arg_shape (Descriptor fd)) a =
                            map (\<lambda>fd. arg_shape (Descriptor fd)) b) r1 r2"
    and ag: "os_agree s1 t1" by simp_all
  show ?thesis
  proof (cases r1)
    case None
    with rel have "r2 = None" by (cases r2) simp_all
    with None c1 c2 ag show ?thesis
      by (simp add: SecureEnvironment_Commands_def)
  next
    case (Some a)
    with rel obtain b where r2: "r2 = Some b"
      and sh: "map (\<lambda>fd. arg_shape (Descriptor fd)) a = map (\<lambda>fd. arg_shape (Descriptor fd)) b"
      by (cases r2) simp_all
    from c1 have "create_fifos S_0600 ?paths [] s = (Some a, s1)"
      unfolding Some .
    then have "length a = length ([] :: SharedFD list) + length ?paths"
      by (rule create_fifos_length)
    then have "length a = 4" by simp
    then have "arg_shape (Descriptor (a ! 0)) = arg_shape (Descriptor (b ! 0))"
      "arg_shape (Descriptor (a ! 1)) = arg_shape (Descriptor (b ! 1))"
      "arg_shape (Descriptor (a ! 2)) = arg_shape (Descriptor (b ! 2))"
      "arg_shape (Descriptor (a ! 3)) = arg_shape (Descriptor (b ! 3))"
      using sh by (simp_all add: shape_nth)
    with Some r2 c1 c2 ag show ?thesis
      by (simp add: SecureEnvironment_Commands_def single_element_emplace_def Let_def)
  qed
qed

lemma agree_Commands:
  "os_agree s t \<Longrightarrow>
   run_agree (Commands kp config inst source s) (Commands kp config inst source t)"
  by (cases source)
     (simp_all add: agree_ConfigServer agree_Console agree_Bluetooth agree_Gnss agree_Logcat
        agree_Metrics agree_RootCanal agree_SecureEnvironment agree_Tombstone agree_VehicleHal)

lemma agree_compose_loop:
  "os_agree s t \<Longrightarrow> map command_shape c1 = map command_shape c2 \<Longrightarrow>
   run_agree (compose_loop kp config inst xs c1 s) (compose_loop kp config inst xs c2 t)"
proof (induction xs arbitrary: c1 c2 s t)
  case Nil
  then show ?case by simp
next
  case (Cons x xs)
  from agree_Commands [OF Cons.prems(1), of kp config inst x]
  show ?case
  proof (cases "Commands kp config inst x s"; cases "Commands kp config inst x t")
    fix o1 s1 o2 t1
    assume r: "Commands kp config inst x s = Return o1 s1"
      "Commands kp config inst x t = Return o2 t1"
    assume "run_agree (Commands kp config inst x s) (Commands kp config inst x t)"
    with r have "os_agree s1 t1" "map command_shape (c1 @ o1) = map command_shape (c2 @ o2)"
      using Cons.prems(2) by simp_all
    from Cons.IH [OF this] r show ?thesis by simp
  qed simp_all
qed

lemma run_agree_shape: "run_agree r1 r2 \<Longrightarrow> run_shape r1 = run_shape r2"
  by (cases r1; cases r2) simp_all

text \<open>
  C5, as amended. Two compositions with the same configuration, from two states of the
  operating system that agree on the file system, on the bound ports and on the failures
  the environment is going to inject (they may differ in the numbering of descriptors and
  in their past), end alike: both exit with the same code, or both return lists of
  commands that are equal in every binary path and in every parameter, in order, up to
  the numbers of the descriptors.
\<close>

theorem compose_deterministic_up_to_descriptors:
  "os_agree s t \<Longrightarrow>
   run_shape (Compose kp config inst s) = run_shape (Compose kp config inst t)"
  unfolding Compose_def
  by (rule run_agree_shape, rule agree_compose_loop) simp_all


theorem compose_deterministic_up_to_descriptors_witness:
  "os_agree os0 os_later
   \<and> run_shape (Compose kp0 config_on inst0 os0) = run_shape (Compose kp0 config_on inst0 os_later)
   \<and> map_option (map parameters) (returned (Compose kp0 config_on inst0 os0)) \<noteq>
       map_option (map parameters) (returned (Compose kp0 config_on inst0 os_later))"
proof -
  have ag: "os_agree os0 os_later"
    by (simp add: os_agree_def os_inputs)
  have ne: "map_option (map parameters) (returned (Compose kp0 config_on inst0 os0)) \<noteq>
       map_option (map parameters) (returned (Compose kp0 config_on inst0 os_later))"
    by (simp add: Compose_def launchComponent_def sources os_inputs inst0_def kp0_def
          config_on_def calls builder)
  from compose_deterministic_up_to_descriptors [OF ag, of kp0 config_on inst0] ag ne
  show ?thesis by simp
qed

text \<open>The claim as first stated, for the same configuration alone, fails. On a fresh
  instance directory the composition returns ten commands; in the same directory, when the
  environment refuses the creation of the first console fifo, it returns nine, the console
  forwarder missing; and composed a second time from the state the first composition
  left, it returns no list at all: the port of the config server is still bound and the
  process exits.\<close>

theorem compose_deterministic_counterexample:
  "map_option (map executable) (returned (Compose kp0 config_on inst0 os0)) =
     Some [''bin/config'', ''bin/console'', ''out/bin/bt_connector'', ''bin/gnss'',
           ''bin/logcat'', ''bin/metrics'', ''bin/root-canal'', ''out/bin/secure_env'',
           ''bin/tomb'', ''bin/vhal'']
   \<and> map_option (map executable) (returned (Compose kp0 config_on inst0 os_fault1)) =
     Some [''bin/config'', ''out/bin/bt_connector'', ''bin/gnss'',
           ''bin/logcat'', ''bin/metrics'', ''bin/root-canal'', ''out/bin/secure_env'',
           ''bin/tomb'', ''bin/vhal'']
   \<and> (case Compose kp0 config_on inst0 os0 of
        Exit code \<Rightarrow> False
      | Return cmds s1 \<Rightarrow> Compose kp0 config_on inst0 s1 = Exit kConfigServerError)"
  by (simp add: Compose_def launchComponent_def sources os_inputs inst0_def kp0_def
        config_on_def calls builder)

subsection \<open>The bridge: a failed write\<close>

lemma WriteAll_cases:
  "WriteAll buf b = (rc, b1) \<Longrightarrow>
   bt_in b1 = bt_in b \<and> connections b1 = connections b \<and> sock b1 = sock b
   \<and> (if rc = -1 then delivered b1 = delivered b
       else delivered b1 = delivered b @ [(sock b, buf)])"
  by (auto simp add: WriteAll_def Let_def split: if_splits)

lemma openSocket_simps [simp]:
  "bt_in (openSocket port b) = bt_in b"
  "delivered (openSocket port b) = delivered b"
  "connections (openSocket port b) = connections b @ [port]"
  by (simp_all add: openSocket_def Let_def)

lemma iteration_step:
  assumes "bt_in b = buf # rest"
  shows "\<exists>b'. guest_to_host_iteration port b = Some b' \<and> bt_in b' = rest
           \<and> (if fst (WriteAll buf (b\<lparr>bt_in := rest\<rparr>)) = -1
               then delivered b' = delivered b \<and> connections b' = connections b @ [port]
               else delivered b' = delivered b @ [(sock b, buf)]
                    \<and> connections b' = connections b)"
proof -
  obtain rc b1 where w: "WriteAll buf (b\<lparr>bt_in := rest\<rparr>) = (rc, b1)"
    by (cases "WriteAll buf (b\<lparr>bt_in := rest\<rparr>)")
  from WriteAll_cases [OF w] assms w show ?thesis
    by (simp add: guest_to_host_iteration_def)
qed

lemma delivered_from_input:
  "\<exists>new. delivered (guest_to_host port n b) = delivered b @ new
         \<and> subseq (map snd new) (bt_in b)"
proof (induction n arbitrary: b)
  case 0
  show ?case by simp
next
  case (Suc n)
  show ?case
  proof (cases "bt_in b")
    case Nil
    then show ?thesis by (simp add: guest_to_host_iteration_def)
  next
    case (Cons buf rest)
    from iteration_step [OF Cons, of port] obtain b' where
      it: "guest_to_host_iteration port b = Some b'" and r: "bt_in b' = rest"
      and d: "delivered b' = delivered b \<or> delivered b' = delivered b @ [(sock b, buf)]"
      by (auto split: if_splits)
    from Suc.IH [of b'] r obtain new where
      n: "delivered (guest_to_host port n b') = delivered b' @ new"
        "subseq (map snd new) rest" by auto
    from d show ?thesis
    proof
      assume "delivered b' = delivered b"
      with n it Cons show ?thesis
        by (intro exI [of _ new]) (simp add: list_emb_Cons)
    next
      assume "delivered b' = delivered b @ [(sock b, buf)]"
      with n it Cons show ?thesis
        by (intro exI [of _ "(sock b, buf) # new"]) simp
    qed
  qed
qed

text \<open>
  C10. In the guest-to-host direction, when the write of the chunk just read fails, the
  turn of the loop ends with one call of \<open>openSocket\<close> and nothing delivered; the chunk is
  kept nowhere, the next turn reads the next chunk, and everything the peer receives from
  then on is made, in order, of chunks read after the failed one: the bytes of the failed
  chunk are lost, not sent again after the reconnection.
\<close>

theorem failed_chunk_is_dropped:
  assumes "bt_in b = buf # rest"
    and "fst (WriteAll buf (b\<lparr>bt_in := rest\<rparr>)) = -1"
  shows "\<exists>b'. guest_to_host_iteration port b = Some b'
           \<and> bt_in b' = rest
           \<and> delivered b' = delivered b
           \<and> connections b' = connections b @ [port]
           \<and> (\<forall>n. guest_to_host port (Suc n) b = guest_to_host port n b'
                  \<and> (\<exists>new. delivered (guest_to_host port n b') = delivered b @ new
                            \<and> subseq (map snd new) rest))"
proof -
  from iteration_step [OF assms(1), of port] assms(2) obtain b' where
    it: "guest_to_host_iteration port b = Some b'" and r: "bt_in b' = rest"
    and d: "delivered b' = delivered b" and c: "connections b' = connections b @ [port]"
    by auto
  have "\<exists>new. delivered (guest_to_host port n b') = delivered b @ new
              \<and> subseq (map snd new) rest" for n
    using delivered_from_input [of port n b'] r d by simp
  with it r d c show ?thesis by simp
qed

theorem failed_chunk_is_dropped_witness:
  "bt_in bridge0 = ''ab'' # [''cd'', ''ef'']
   \<and> fst (WriteAll ''ab'' (bridge0\<lparr>bt_in := [''cd'', ''ef'']\<rparr>)) = -1
   \<and> delivered (guest_to_host 7300 3 bridge0) = [(FD 6, ''cd''), (FD 6, ''ef'')]
   \<and> connections (guest_to_host 7300 3 bridge0) = [7300, 7300]"
proof -
  have h1: "bt_in bridge0 = ''ab'' # [''cd'', ''ef'']" by (simp add: bridge0_def)
  have h2: "fst (WriteAll ''ab'' (bridge0\<lparr>bt_in := [''cd'', ''ef'']\<rparr>)) = -1"
    by (simp add: bridge0_def WriteAll_def IsOpen_def)
  have ev: "delivered (guest_to_host 7300 3 bridge0) = [(FD 6, ''cd''), (FD 6, ''ef'')]
   \<and> connections (guest_to_host 7300 3 bridge0) = [7300, 7300]"
    by (simp add: numeral_3_eq_3 bridge0_def guest_to_host_iteration_def WriteAll_def
          openSocket_def IsOpen_def Let_def)
  from failed_chunk_is_dropped [OF h1 h2, of 7300] h1 h2 ev show ?thesis by simp
qed

end
